theory Spec2Isabelle
  imports Main
begin

section \<open>Strings\<close>

text \<open>
  A Python \<open>str\<close> is modelled as a \<open>string\<close> whose characters are the code points
  below 256 (Latin-1), so \<open>length\<close> counts code points as \<open>len\<close> does. The character
  classes are those of \<open>str.isdigit\<close> and \<open>str.isspace\<close> on that range: besides
  \<open>0\<close>..\<open>9\<close>, \<open>isdigit\<close> holds of the superscripts U+00B2, U+00B3 and U+00B9, and the
  whitespace removed by \<open>str.strip()\<close> is U+0009..U+000D, U+001C..U+0020, U+0085, U+00A0.
\<close>

definition isdigit :: "char \<Rightarrow> bool" where
  "isdigit c =
     (let n = (of_char c :: nat)
      in (48 \<le> n \<and> n \<le> 57) \<or> n = 178 \<or> n = 179 \<or> n = 185)"

definition isspace :: "char \<Rightarrow> bool" where
  "isspace c =
     (let n = (of_char c :: nat)
      in (9 \<le> n \<and> n \<le> 13) \<or> (28 \<le> n \<and> n \<le> 32) \<or> n = 133 \<or> n = 160)"

definition strip :: "string \<Rightarrow> string" where
  "strip s = rev (dropWhile isspace (rev (dropWhile isspace s)))"

definition startswith :: "string \<Rightarrow> string \<Rightarrow> bool" where
  "startswith s p = (take (length p) s = p)"

section \<open>Phone normalizer\<close>

text \<open>\<open>_normalize_phone\<close> of main.py, branch by branch.\<close>

definition normalize_phone :: "string \<Rightarrow> string" where
  "normalize_phone phone =
     (let digits = filter isdigit phone
      in if startswith (strip phone) ''+'' then ''+'' @ digits
         else if length digits = 10 then ''+1'' @ digits
         else if \<not> startswith digits ''+'' then ''+'' @ digits else digits)"

text \<open>The normalizer as section 4.1 of the specification words it (three cases).\<close>

definition normalize_spec :: "string \<Rightarrow> string" where
  "normalize_spec raw =
     (let digits = filter isdigit raw
      in if startswith (strip raw) ''+'' then ''+'' @ digits
         else if length digits = 10 then ''+1'' @ digits
         else ''+'' @ digits)"

section \<open>More of Python's strings\<close>

text \<open>\<open>str(n)\<close> for an integer: its decimal digits, with a minus sign when negative.\<close>

definition digit_char :: "nat \<Rightarrow> char" where
  "digit_char k = ''0123456789'' ! k"

fun str_nat :: "nat \<Rightarrow> string" where
  "str_nat n = (if n < 10 then [digit_char n] else str_nat (n div 10) @ [digit_char (n mod 10)])"

declare str_nat.simps [simp del]

definition str_int :: "int \<Rightarrow> string" where
  "str_int i = (if i < 0 then CHR ''-'' # str_nat (nat (- i)) else str_nat (nat i))"

text \<open>
  \<open>str.lower()\<close> and \<open>str.upper()\<close> on the Latin-1 range. The capital of U+00DF is the
  two letters \<open>SS\<close>; the capitals of U+00B5 and U+00FF lie outside Latin-1 and those two
  characters are kept as they are (the results are only compared with ASCII literals).
\<close>

definition lower_char :: "char \<Rightarrow> char" where
  "lower_char c =
     (let n = (of_char c :: nat)
      in if (65 \<le> n \<and> n \<le> 90) \<or> (192 \<le> n \<and> n \<le> 222 \<and> n \<noteq> 215) then char_of (n + 32) else c)"

definition lower :: "string \<Rightarrow> string" where
  "lower s = map lower_char s"

definition upper_char :: "char \<Rightarrow> string" where
  "upper_char c =
     (let n = (of_char c :: nat)
      in if (97 \<le> n \<and> n \<le> 122) \<or> (224 \<le> n \<and> n \<le> 254 \<and> n \<noteq> 247) then [char_of (n - 32)]
         else if n = 223 then ''SS'' else [c])"

definition upper :: "string \<Rightarrow> string" where
  "upper s = concat (map upper_char s)"

text \<open>Truthiness of an optional string, and Python's \<open>x or default\<close>.\<close>

definition truthy :: "string option \<Rightarrow> bool" where
  "truthy x = (case x of None \<Rightarrow> False | Some s \<Rightarrow> s \<noteq> [])"

definition or_else :: "string option \<Rightarrow> string \<Rightarrow> string" where
  "or_else x dflt = (case x of None \<Rightarrow> dflt | Some s \<Rightarrow> if s = [] then dflt else s)"

text \<open>The ten ASCII digits, of which a six-digit numeric string is made.\<close>

definition ascii_digit :: "char \<Rightarrow> bool" where
  "ascii_digit c = (c \<in> set ''0123456789'')"

section \<open>Documents and the document store\<close>

text \<open>
  A bson \<open>ObjectId\<close> is kept in its canonical form, the 24 lower-case hexadecimal digits
  that \<open>str\<close> prints. \<open>ObjectId(s)\<close> accepts a string of 24 hexadecimal digits of either
  case and is an error on any other string.
\<close>

type_synonym oid = string

type_synonym datetime = nat

definition ishex :: "char \<Rightarrow> bool" where
  "ishex c = (c \<in> set ''0123456789abcdefABCDEF'')"

definition ObjectId :: "string \<Rightarrow> oid option" where
  "ObjectId s = (if length s = 24 \<and> list_all ishex s then Some (lower s) else None)"

definition str_oid :: "oid \<Rightarrow> string" where
  "str_oid i = i"

text \<open>
  The classes of schemas.py, as the documents the collections hold. A field carries the
  class name's initial (\<open>c_\<close>, \<open>e_\<close>, \<open>r_\<close>, \<open>m_\<close>) because several classes share field
  names. \<open>updated_at\<close> is the field the handlers \<open>$set\<close>. A field of \<open>Smsmessage\<close> that
  a document written by the webhook's upsert lacks is optional. The \<open>ticket_price\<close> of
  an event (a float) is left out: no handler modelled here reads it.
\<close>

record Contact =
  c_name :: string
  c_phone :: string
  c_email :: "string option"
  c_headshot_url :: "string option"
  c_city :: "string option"
  c_state :: "string option"
  c_segment :: string
  c_brand_queue :: string
  c_status :: string
  c_phone_verified :: bool
  c_referral_code :: "string option"
  c_referred_by :: "string option"
  c_verification_code :: "string option"
  c_updated_at :: "datetime option"

record Event =
  e_name :: string
  e_date :: datetime
  e_type :: string
  e_flyer_url :: "string option"
  e_gate_code :: "string option"
  e_status :: string

record Rsvp =
  r_contact_id :: string
  r_event_id :: string
  r_status :: string
  r_qr_code_token :: "string option"
  r_sent_gate_code :: bool
  r_updated_at :: "datetime option"

record log_entry =
  l_status :: "string option"
  l_at :: datetime
  l_to :: "string option"
  l_error_code :: "string option"

record Smsmessage =
  m_to :: "string option"
  m_body :: "string option"
  m_purpose :: "string option"
  m_status :: "string option"
  m_provider_message_sid :: "string option"
  m_error_code :: "string option"
  m_error_message :: "string option"
  m_logs :: "log_entry list"
  m_updated_at :: "datetime option"

text \<open>
  A collection is the list of its documents in insertion order, each with its \<open>_id\<close>.
  \<open>db\<close> of database.py is \<open>None\<close> when no database is configured.
\<close>

type_synonym 'a docs = "(oid \<times> 'a) list"

record database =
  contact :: "Contact docs"
  event :: "Event docs"
  rsvp :: "Rsvp docs"
  smsmessage :: "Smsmessage docs"

datatype error =
    HTTPException nat string
  | ValidationError string
  | ProviderError string

fun str_exc :: "error \<Rightarrow> string" where
  "str_exc (HTTPException code detail) = detail"
| "str_exc (ValidationError msg) = msg"
| "str_exc (ProviderError msg) = msg"

datatype response =
    Registered string string string
  | Message string
  | Verified string string
  | RsvpSaved string string
  | Ack

text \<open>
  pymongo's \<open>find_one\<close> returns the first document the filter matches, \<open>update_one\<close>
  changes the first document the filter matches and nothing when there is none, and
  with \<open>upsert=True\<close> it inserts a document when there is none.
\<close>

definition find_one :: "('a \<Rightarrow> bool) \<Rightarrow> 'a list \<Rightarrow> 'a option" where
  "find_one flt ds = find flt ds"

fun update_one :: "('a \<Rightarrow> bool) \<Rightarrow> ('a \<Rightarrow> 'a) \<Rightarrow> 'a list \<Rightarrow> 'a list" where
  "update_one flt upd [] = []"
| "update_one flt upd (x # xs) = (if flt x then upd x # xs else x # update_one flt upd xs)"

definition update_one_upsert :: "('a \<Rightarrow> bool) \<Rightarrow> ('a \<Rightarrow> 'a) \<Rightarrow> 'a \<Rightarrow> 'a list \<Rightarrow> 'a list" where
  "update_one_upsert flt upd new ds =
     (case find_one flt ds of None \<Rightarrow> ds @ [new] | Some x \<Rightarrow> update_one flt upd ds)"

text \<open>
  Modelled from the spec: \<open>create_document\<close> of database.py, which is not among the
  sources. The specification asks of the store an insert that assigns the new record
  its identity and hands the identity back; the handlers return it as a string. The
  identity is the one the driver generates for the insert, an input of the model.
\<close>

definition create_document :: "oid \<Rightarrow> 'a \<Rightarrow> 'a docs \<Rightarrow> string \<times> 'a docs" where
  "create_document new_id data ds = (str_oid new_id, ds @ [(new_id, data)])"

text \<open>\<open>_collection\<close>: the guard every handler passes before it touches a collection.\<close>

definition collection :: "database option \<Rightarrow> (database \<Rightarrow> 'a) \<Rightarrow> error + 'a" where
  "collection db name =
     (case db of None \<Rightarrow> Inl (HTTPException 500 ''Database not available'')
      | Some d \<Rightarrow> Inr (name d))"

section \<open>The schema classes' constructors\<close>

text \<open>
  A pydantic constructor raises a validation error when a \<open>Literal\<close> field is given a
  string outside its literals; the handlers do not catch it.
\<close>

definition new_Contact ::
  "string \<Rightarrow> string \<Rightarrow> string option \<Rightarrow> string option \<Rightarrow> string option \<Rightarrow> string option \<Rightarrow>
   string \<Rightarrow> string \<Rightarrow> string \<Rightarrow> bool \<Rightarrow> string option \<Rightarrow> string option \<Rightarrow> error + Contact" where
  "new_Contact name phone email headshot_url city state brand_queue segment status
     phone_verified referred_by verification_code =
     (if segment \<notin> set [''local'', ''out_of_state''] then Inl (ValidationError ''segment'')
      else if brand_queue \<notin> set [''anomaly'', ''arcane''] then Inl (ValidationError ''brand_queue'')
      else if status \<notin> set [''pending'', ''approved'', ''rejected''] then Inl (ValidationError ''status'')
      else Inr \<lparr>c_name = name, c_phone = phone, c_email = email, c_headshot_url = headshot_url,
                c_city = city, c_state = state, c_segment = segment, c_brand_queue = brand_queue,
                c_status = status, c_phone_verified = phone_verified, c_referral_code = None,
                c_referred_by = referred_by, c_verification_code = verification_code,
                c_updated_at = None\<rparr>)"

definition new_Rsvp :: "string \<Rightarrow> string \<Rightarrow> string \<Rightarrow> error + Rsvp" where
  "new_Rsvp contact_id event_id status =
     (if status \<notin> set [''yes'', ''not_this_time'', ''no_response''] then Inl (ValidationError ''status'')
      else Inr \<lparr>r_contact_id = contact_id, r_event_id = event_id, r_status = status,
                r_qr_code_token = None, r_sent_gate_code = False, r_updated_at = None\<rparr>)"

definition new_Smsmessage ::
  "string \<Rightarrow> string \<Rightarrow> string \<Rightarrow> string \<Rightarrow> string option \<Rightarrow> string option \<Rightarrow> error + Smsmessage" where
  "new_Smsmessage to body purpose status provider_message_sid error_message =
     (if purpose \<notin> set [''verify'', ''invite'', ''reminder'', ''gate_code''] then Inl (ValidationError ''purpose'')
      else if status \<notin> set [''queued'', ''sent'', ''delivered'', ''failed''] then Inl (ValidationError ''status'')
      else Inr \<lparr>m_to = Some to, m_body = Some body, m_purpose = Some purpose, m_status = Some status,
                m_provider_message_sid = provider_message_sid, m_error_code = None,
                m_error_message = error_message, m_logs = [], m_updated_at = None\<rparr>)"

section \<open>What a request takes from its environment\<close>

text \<open>
  The globals and the calls whose results the program does not determine:
  whether a Twilio client was built and the sender number, what
  \<open>twilio_client.messages.create\<close> does when it is called (it returns a message with
  a sid or raises), the value \<open>random.randint(100000, 999999)\<close> draws, the first and
  the second reading of \<open>datetime.now\<close>, and the identity the driver generates for a
  document inserted in each collection.
\<close>

record env =
  twilio_client :: bool
  TWILIO_FROM_NUMBER :: "string option"
  messages_create :: "error + string"
  randint :: int
  now :: datetime
  now2 :: datetime
  new_contact_id :: oid
  new_rsvp_id :: oid
  new_sms_id :: oid

section \<open>SMS gateway\<close>

text \<open>
  The \<open>try\<close> block of \<open>_send_sms\<close>: an exception leaves it with the value \<open>sid\<close> has at
  that point.
\<close>

definition send_sms_try ::
  "database \<Rightarrow> env \<Rightarrow> string \<Rightarrow> string \<Rightarrow> string \<Rightarrow> (error \<times> string option) + (string option \<times> database)" where
  "send_sms_try d env to_norm body purpose =
     (if twilio_client env \<and> truthy (TWILIO_FROM_NUMBER env) then
        (case messages_create env of
           Inl e \<Rightarrow> Inl (e, None)
         | Inr sid \<Rightarrow>
             (case new_Smsmessage to_norm body purpose ''sent'' (Some sid) None of
                Inl e \<Rightarrow> Inl (e, Some sid)
              | Inr m \<Rightarrow>
                  Inr (Some sid, d\<lparr>smsmessage := snd (create_document (new_sms_id env) m (smsmessage d))\<rparr>)))
      else
        (case new_Smsmessage to_norm body purpose ''queued'' None None of
           Inl e \<Rightarrow> Inl (e, None)
         | Inr m \<Rightarrow>
             Inr (None, d\<lparr>smsmessage := snd (create_document (new_sms_id env) m (smsmessage d))\<rparr>)))"

text \<open>\<open>_send_sms\<close>: the \<open>except\<close> block logs the failure; what it raises itself propagates.\<close>

definition send_sms ::
  "database \<Rightarrow> env \<Rightarrow> string \<Rightarrow> string \<Rightarrow> string \<Rightarrow> error + (string option \<times> database)" where
  "send_sms d env to body purpose =
     (let to_norm = normalize_phone to
      in case send_sms_try d env to_norm body purpose of
           Inr r \<Rightarrow> Inr r
         | Inl (e, sid) \<Rightarrow>
             (case new_Smsmessage to_norm body purpose ''failed'' None (Some (str_exc e)) of
                Inl e' \<Rightarrow> Inl e'
              | Inr m \<Rightarrow>
                  Inr (sid, d\<lparr>smsmessage := snd (create_document (new_sms_id env) m (smsmessage d))\<rparr>)))"

section \<open>Contact registration and verification\<close>

text \<open>The payloads of the requests (the pydantic request models, already validated).\<close>

record RegistrationRequest =
  p_name :: string
  p_phone :: string
  p_email :: "string option"
  p_headshot_url :: "string option"
  p_city :: "string option"
  p_state :: "string option"
  p_brand_queue :: "string option"
  p_referred_by :: "string option"

record RsvpRequest =
  q_contact_id :: string
  q_event_id :: string
  q_status :: string

record form =
  MessageSid :: "string option"
  MessageStatus :: "string option"
  To :: "string option"
  ErrorCode :: "string option"

text \<open>The expression \<open>str(random.randint(100000, 999999))\<close> that issues a code.\<close>

definition issue_code :: "env \<Rightarrow> string" where
  "issue_code env = str_int (randint env)"

text \<open>The \<open>$set\<close> that both resend paths apply to the contact they found.\<close>

definition set_code :: "string \<Rightarrow> datetime \<Rightarrow> oid \<times> Contact \<Rightarrow> oid \<times> Contact" where
  "set_code code t doc =
     (fst doc, (snd doc)\<lparr>c_verification_code := Some code, c_updated_at := Some t\<rparr>)"

definition set_verified :: "datetime \<Rightarrow> oid \<times> Contact \<Rightarrow> oid \<times> Contact" where
  "set_verified t doc =
     (fst doc, (snd doc)\<lparr>c_phone_verified := True, c_verification_code := None, c_updated_at := Some t\<rparr>)"

definition register_contact ::
  "database option \<Rightarrow> env \<Rightarrow> RegistrationRequest \<Rightarrow> (error + response) \<times> database option" where
  "register_contact db env payload =
     (let phone = normalize_phone (p_phone payload)
      in case db of
           None \<Rightarrow> (Inl (HTTPException 500 ''Database not available''), db)
         | Some d \<Rightarrow>
             (case find_one (\<lambda>doc. c_phone (snd doc) = phone) (contact d) of
                Some existing \<Rightarrow>
                  (let code = issue_code env;
                       d1 = d\<lparr>contact := update_one (\<lambda>doc. fst doc = fst existing)
                                            (set_code code (now env)) (contact d)\<rparr>
                   in case send_sms d1 env phone (''Anomaly verification code: '' @ code) ''verify'' of
                        Inl e \<Rightarrow> (Inl e, Some d1)
                      | Inr (sid, d2) \<Rightarrow>
                          (Inr (Registered (str_oid (fst existing)) phone
                                  ''Contact exists, verification re-sent''), Some d2))
              | None \<Rightarrow>
                  (let code = issue_code env;
                       segment =
                         (if upper (strip (or_else (p_state payload) []))
                               \<in> set [''CA'', ''NY'', ''NV'', ''WA'', ''OR'', ''TX'', ''FL'']
                          then ''local'' else ''out_of_state'')
                   in case new_Contact (p_name payload) phone (p_email payload)
                             (p_headshot_url payload) (p_city payload) (p_state payload)
                             (lower (or_else (p_brand_queue payload) ''anomaly'')) segment
                             ''pending'' False (p_referred_by payload) (Some code) of
                        Inl e \<Rightarrow> (Inl e, Some d)
                      | Inr c \<Rightarrow>
                          (let ins = create_document (new_contact_id env) c (contact d);
                               d1 = d\<lparr>contact := snd ins\<rparr>
                           in case send_sms d1 env phone (''Anomaly verification code: '' @ code) ''verify'' of
                                Inl e \<Rightarrow> (Inl e, Some d1)
                              | Inr (sid, d2) \<Rightarrow>
                                  (Inr (Registered (fst ins) phone
                                          ''Registration received. Verification sent.''), Some d2)))))"

definition send_verification ::
  "database option \<Rightarrow> env \<Rightarrow> string \<Rightarrow> (error + response) \<times> database option" where
  "send_verification db env raw_phone =
     (let phone = normalize_phone raw_phone
      in case db of
           None \<Rightarrow> (Inl (HTTPException 500 ''Database not available''), db)
         | Some d \<Rightarrow>
             (case find_one (\<lambda>doc. c_phone (snd doc) = phone) (contact d) of
                None \<Rightarrow> (Inl (HTTPException 404 ''Contact not found''), db)
              | Some found \<Rightarrow>
                  (let code = issue_code env;
                       d1 = d\<lparr>contact := update_one (\<lambda>doc. fst doc = fst found)
                                            (set_code code (now env)) (contact d)\<rparr>
                   in case send_sms d1 env phone (''Anomaly verification code: '' @ code) ''verify'' of
                        Inl e \<Rightarrow> (Inl e, Some d1)
                      | Inr (sid, d2) \<Rightarrow> (Inr (Message ''Verification sent''), Some d2))))"

definition confirm_verification ::
  "database option \<Rightarrow> env \<Rightarrow> string \<Rightarrow> string \<Rightarrow> (error + response) \<times> database option" where
  "confirm_verification db env raw_phone code =
     (let phone = normalize_phone raw_phone
      in case db of
           None \<Rightarrow> (Inl (HTTPException 500 ''Database not available''), db)
         | Some d \<Rightarrow>
             (case find_one (\<lambda>doc. c_phone (snd doc) = phone) (contact d) of
                None \<Rightarrow> (Inl (HTTPException 404 ''Contact not found''), db)
              | Some found \<Rightarrow>
                  if Some code \<noteq> c_verification_code (snd found)
                  then (Inl (HTTPException 400 ''Invalid verification code''), db)
                  else
                    (Inr (Verified ''Phone verified'' (str_oid (fst found))),
                     Some (d\<lparr>contact := update_one (\<lambda>doc. fst doc = fst found)
                                            (set_verified (now env)) (contact d)\<rparr>))))"

section \<open>RSVP upsert\<close>

definition set_status :: "string \<Rightarrow> datetime \<Rightarrow> oid \<times> Rsvp \<Rightarrow> oid \<times> Rsvp" where
  "set_status status t doc =
     (fst doc, (snd doc)\<lparr>r_status := status, r_updated_at := Some t\<rparr>)"

definition upsert_rsvp ::
  "database option \<Rightarrow> env \<Rightarrow> RsvpRequest \<Rightarrow> (error + response) \<times> database option" where
  "upsert_rsvp db env payload =
     (case (ObjectId (q_contact_id payload), ObjectId (q_event_id payload)) of
        (Some contact_id, Some event_id) \<Rightarrow>
          (case db of
             None \<Rightarrow> (Inl (HTTPException 500 ''Database not available''), db)
           | Some d \<Rightarrow>
               if find_one (\<lambda>doc. fst doc = contact_id) (contact d) = None
               then (Inl (HTTPException 404 ''Contact not found''), db)
               else if find_one (\<lambda>doc. fst doc = event_id) (event d) = None
               then (Inl (HTTPException 404 ''Event not found''), db)
               else
                 (case find_one (\<lambda>doc. r_contact_id (snd doc) = q_contact_id payload \<and>
                                         r_event_id (snd doc) = q_event_id payload) (rsvp d) of
                    Some r \<Rightarrow>
                      (Inr (RsvpSaved (str_oid (fst r)) (q_status payload)),
                       Some (d\<lparr>rsvp := update_one (\<lambda>doc. fst doc = fst r)
                                          (set_status (q_status payload) (now env)) (rsvp d)\<rparr>))
                  | None \<Rightarrow>
                      (case new_Rsvp (q_contact_id payload) (q_event_id payload) (q_status payload) of
                         Inl e \<Rightarrow> (Inl e, db)
                       | Inr r \<Rightarrow>
                           (let ins = create_document (new_rsvp_id env) r (rsvp d)
                            in (Inr (RsvpSaved (fst ins) (q_status payload)),
                                Some (d\<lparr>rsvp := snd ins\<rparr>))))))
      | _ \<Rightarrow> (Inl (HTTPException 400 ''Invalid IDs''), db))"

section \<open>Delivery status webhook\<close>

text \<open>
  The update document of the webhook: \<open>$set\<close> of status and \<open>updated_at\<close>, \<open>$push\<close> of one
  entry to \<open>logs\<close>; and the document the upsert inserts when no row has the sid, which
  holds the filter's field and the updated fields only.
\<close>

definition status_entry :: "env \<Rightarrow> form \<Rightarrow> log_entry" where
  "status_entry env f =
     \<lparr>l_status = MessageStatus f, l_at = now2 env, l_to = To f, l_error_code = ErrorCode f\<rparr>"

definition apply_status :: "env \<Rightarrow> form \<Rightarrow> oid \<times> Smsmessage \<Rightarrow> oid \<times> Smsmessage" where
  "apply_status env f doc =
     (fst doc, (snd doc)\<lparr>m_status := MessageStatus f, m_updated_at := Some (now env),
                          m_logs := m_logs (snd doc) @ [status_entry env f]\<rparr>)"

definition upserted_row :: "env \<Rightarrow> form \<Rightarrow> oid \<times> Smsmessage" where
  "upserted_row env f =
     (new_sms_id env,
      \<lparr>m_to = None, m_body = None, m_purpose = None, m_status = MessageStatus f,
       m_provider_message_sid = MessageSid f, m_error_code = None, m_error_message = None,
       m_logs = [status_entry env f], m_updated_at = Some (now env)\<rparr>)"

definition sms_status_webhook ::
  "database option \<Rightarrow> env \<Rightarrow> form \<Rightarrow> (error + response) \<times> database option" where
  "sms_status_webhook db env f =
     (if \<not> truthy (MessageSid f) then (Inr Ack, db)
      else
        (case db of
           None \<Rightarrow> (Inl (HTTPException 500 ''Database not available''), db)
         | Some d \<Rightarrow>
             (Inr Ack,
              Some (d\<lparr>smsmessage :=
                        update_one_upsert (\<lambda>doc. m_provider_message_sid (snd doc) = MessageSid f)
                          (apply_status env f) (upserted_row env f) (smsmessage d)\<rparr>))))"

section \<open>Serving requests\<close>

datatype request =
    Register RegistrationRequest
  | SendVerification string
  | ConfirmVerification string string
  | UpsertRsvp RsvpRequest
  | SmsStatus form

fun handle :: "database option \<Rightarrow> env \<times> request \<Rightarrow> database option" where
  "handle db (env, Register payload) = snd (register_contact db env payload)"
| "handle db (env, SendVerification phone) = snd (send_verification db env phone)"
| "handle db (env, ConfirmVerification phone code) = snd (confirm_verification db env phone code)"
| "handle db (env, UpsertRsvp payload) = snd (upsert_rsvp db env payload)"
| "handle db (env, SmsStatus f) = snd (sms_status_webhook db env f)"

definition serve :: "database option \<Rightarrow> (env \<times> request) list \<Rightarrow> database option" where
  "serve db reqs = foldl handle db reqs"

section \<open>Verified contacts over a run of requests\<close>

text \<open>
  The contacts of a store (none when there is no database), and the relation between the
  contacts before and after some requests that the verification state machine is to
  keep: every contact is still there, at its place and under its identity, and is
  verified if it was.
\<close>

definition contacts_of :: "database option \<Rightarrow> Contact docs" where
  "contacts_of db = (case db of None \<Rightarrow> [] | Some d \<Rightarrow> contact d)"

definition stays_verified :: "Contact docs \<Rightarrow> Contact docs \<Rightarrow> bool" where
  "stays_verified cs cs' =
     (length cs \<le> length cs' \<and>
      (\<forall>k<length cs. fst (cs' ! k) = fst (cs ! k) \<and>
         (c_phone_verified (snd (cs ! k)) \<longrightarrow> c_phone_verified (snd (cs' ! k)))))"

section \<open>The RSVP records of a pair\<close>

text \<open>
  The RSVP documents of a store, and those among them that the upsert's filter matches for
  a pair \<open>(contact_id, event_id)\<close>: the strings are compared as they are stored.
\<close>

definition rsvps_of :: "database option \<Rightarrow> Rsvp docs" where
  "rsvps_of db = (case db of None \<Rightarrow> [] | Some d \<Rightarrow> rsvp d)"

definition rsvps_for :: "string \<Rightarrow> string \<Rightarrow> database option \<Rightarrow> Rsvp docs" where
  "rsvps_for cid eid db =
     filter (\<lambda>doc. r_contact_id (snd doc) = cid \<and> r_event_id (snd doc) = eid) (rsvps_of db)"

section \<open>Example inputs\<close>

text \<open>
  An environment with no SMS provider configured, and one whose provider raises on
  every send.
\<close>

definition env_queued :: env where
  "env_queued =
     \<lparr>twilio_client = False, TWILIO_FROM_NUMBER = None, messages_create = Inr ''SM1'',
      randint = 123456, now = 7, now2 = 8,
      new_contact_id = ''c2'', new_rsvp_id = ''r2'', new_sms_id = ''m2''\<rparr>"

definition env_failing :: env where
  "env_failing =
     \<lparr>twilio_client = True, TWILIO_FROM_NUMBER = Some ''+15550000000'',
      messages_create = Inl (ProviderError ''timeout''),
      randint = 654321, now = 9, now2 = 10,
      new_contact_id = ''c3'', new_rsvp_id = ''r3'', new_sms_id = ''m3''\<rparr>"

text \<open>
  A store with one unverified contact holding the code \<open>111111\<close>, one event, no RSVP and
  one message row that the provider knows as \<open>SM1\<close>.
\<close>

definition ana :: Contact where
  "ana =
     \<lparr>c_name = ''Ana'', c_phone = ''+15550001111'', c_email = None, c_headshot_url = None,
      c_city = None, c_state = Some ''CA'', c_segment = ''local'', c_brand_queue = ''anomaly'',
      c_status = ''pending'', c_phone_verified = False, c_referral_code = None,
      c_referred_by = None, c_verification_code = Some ''111111'', c_updated_at = None\<rparr>"

definition party :: Event where
  "party =
     \<lparr>e_name = ''Party'', e_date = 100, e_type = ''club'', e_flyer_url = None,
      e_gate_code = None, e_status = ''scheduled''\<rparr>"

definition row_SM1 :: Smsmessage where
  "row_SM1 =
     \<lparr>m_to = Some ''+15550001111'', m_body = Some ''hello'', m_purpose = Some ''verify'',
      m_status = Some ''sent'', m_provider_message_sid = Some ''SM1'', m_error_code = None,
      m_error_message = None, m_logs = [], m_updated_at = None\<rparr>"

definition store1 :: database where
  "store1 =
     \<lparr>contact = [(''aaaaaaaaaaaaaaaaaaaaaaaa'', ana)],
      event = [(''bbbbbbbbbbbbbbbbbbbbbbbb'', party)],
      rsvp = [],
      smsmessage = [(''m1'', row_SM1)]\<rparr>"

text \<open>Status callbacks: for the logged message, for a sid no row has, and without a sid.\<close>

definition callback_SM1 :: form where
  "callback_SM1 =
     \<lparr>MessageSid = Some ''SM1'', MessageStatus = Some ''delivered'',
      To = Some ''+15550001111'', ErrorCode = None\<rparr>"

definition callback_SM9 :: form where
  "callback_SM9 =
     \<lparr>MessageSid = Some ''SM9'', MessageStatus = Some ''failed'',
      To = Some ''+15550002222'', ErrorCode = Some ''30003''\<rparr>"

definition callback_no_sid :: form where
  "callback_no_sid =
     \<lparr>MessageSid = None, MessageStatus = Some ''delivered'', To = None, ErrorCode = None\<rparr>"

text \<open>The empty store, and Ana's registration, which writes her phone with dashes.\<close>

definition store0 :: database where
  "store0 = \<lparr>contact = [], event = [], rsvp = [], smsmessage = []\<rparr>"

definition payload_ana :: RegistrationRequest where
  "payload_ana =
     \<lparr>p_name = ''Ana'', p_phone = ''555-000-1111'', p_email = None, p_headshot_url = None,
      p_city = None, p_state = Some ''CA'', p_brand_queue = None, p_referred_by = None\<rparr>"

text \<open>The store after Ana has confirmed her code, and some requests that follow.\<close>

definition store1_verified :: database where
  "store1_verified =
     store1\<lparr>contact :=
       [(''aaaaaaaaaaaaaaaaaaaaaaaa'',
         ana\<lparr>c_phone_verified := True, c_verification_code := None, c_updated_at := Some 7\<rparr>)]\<rparr>"

definition later_requests :: "(env \<times> request) list" where
  "later_requests =
     [(env_failing, Register payload_ana),
      (env_queued, SendVerification ''555-000-1111''),
      (env_queued, ConfirmVerification ''555-000-1111'' ''000000''),
      (env_queued, SmsStatus callback_SM1)]"

section \<open>Properties of the normalizer\<close>

lemma isdigit_plus [simp]: "\<not> isdigit CHR ''+''"
  by (simp add: isdigit_def)

lemma isspace_plus [simp]: "\<not> isspace CHR ''+''"
  by (simp add: isspace_def)

lemma startswith_plus_iff: "startswith s ''+'' \<longleftrightarrow> (\<exists>t. s = CHR ''+'' # t)"
  by (cases s) (auto simp: startswith_def)

lemma filter_isdigit_no_plus: "\<not> startswith (filter isdigit s) ''+''"
proof
  assume "startswith (filter isdigit s) ''+''"
  then obtain t where "filter isdigit s = CHR ''+'' # t"
    by (auto simp: startswith_plus_iff)
  then have "CHR ''+'' \<in> set (filter isdigit s)"
    by simp
  then show False
    by simp
qed

lemma strip_plus: "strip (CHR ''+'' # s) = CHR ''+'' # rev (dropWhile isspace (rev s))"
  by (simp add: strip_def dropWhile_append)

lemma filter_isdigit_idem: "filter isdigit (filter isdigit s) = filter isdigit s"
  by simp

lemma normalize_phone_shape:
  "normalize_phone s = CHR ''+'' # filter isdigit s \<or>
   normalize_phone s = CHR ''+'' # CHR ''1'' # filter isdigit s"
  by (simp add: normalize_phone_def Let_def filter_isdigit_no_plus)

lemma normalize_phone_fixed:
  assumes "list_all isdigit ds"
  shows "normalize_phone (CHR ''+'' # ds) = CHR ''+'' # ds"
proof -
  have "filter isdigit ds = ds"
    using assms by (simp add: list_all_iff)
  moreover have "startswith (strip (CHR ''+'' # ds)) ''+''"
    by (simp add: strip_plus startswith_def)
  ultimately show ?thesis
    by (simp add: normalize_phone_def Let_def)
qed

text \<open>
  C4. The normalizer returns a string on every input (it is a total function with no
  error branch) and computes what the specification describes: the digits of the input,
  prefixed by \<open>+\<close> when the trimmed input starts with \<open>+\<close>, by \<open>+1\<close> when there are exactly
  ten digits, and by \<open>+\<close> otherwise; the two examples of the specification evaluate as
  stated.
\<close>

theorem normalize_phone_refines_spec:
  "normalize_phone raw = normalize_spec raw \<and>
   normalize_phone ''+15551234567'' = ''+15551234567'' \<and>
   normalize_phone ''5551234567'' = ''+15551234567''"
proof -
  have "normalize_phone raw = normalize_spec raw"
    by (simp add: normalize_phone_def normalize_spec_def Let_def filter_isdigit_no_plus)
  moreover have "normalize_phone ''+15551234567'' = ''+15551234567''"
    by (simp add: normalize_phone_def Let_def isdigit_def isspace_def strip_def startswith_def)
  moreover have "normalize_phone ''5551234567'' = ''+15551234567''"
    by (simp add: normalize_phone_def Let_def isdigit_def isspace_def strip_def startswith_def)
  ultimately show ?thesis
    by simp
qed

text \<open>
  C10. The normalizer is idempotent: its output is \<open>+\<close> followed by digits only, and it
  maps every such string to itself.
\<close>

theorem normalize_phone_idempotent:
  "normalize_phone (normalize_phone s) = normalize_phone s \<and>
   hd (normalize_phone s) = CHR ''+'' \<and>
   list_all isdigit (tl (normalize_phone s))"
proof -
  have one: "isdigit CHR ''1''"
    by (simp add: isdigit_def)
  have all: "list_all isdigit (filter isdigit s)"
    by (simp add: list_all_iff)
  from normalize_phone_shape [of s] show ?thesis
  proof
    assume eq: "normalize_phone s = CHR ''+'' # filter isdigit s"
    with all show ?thesis
      by (simp add: normalize_phone_fixed)
  next
    assume eq: "normalize_phone s = CHR ''+'' # CHR ''1'' # filter isdigit s"
    have "list_all isdigit (CHR ''1'' # filter isdigit s)"
      using one all by simp
    with eq show ?thesis
      by (simp add: normalize_phone_fixed)
  qed
qed

section \<open>Verification codes\<close>

lemma str_nat_base: "n < 10 \<Longrightarrow> str_nat n = [digit_char n]"
  by (subst str_nat.simps) simp

lemma str_nat_step: "10 \<le> n \<Longrightarrow> str_nat n = str_nat (n div 10) @ [digit_char (n mod 10)]"
  by (subst str_nat.simps) simp

lemma str_nat_six:
  assumes "100000 \<le> n" "n \<le> 999999"
  shows "str_nat n =
    [digit_char (n div 10 div 10 div 10 div 10 div 10), digit_char (n div 10 div 10 div 10 div 10 mod 10),
     digit_char (n div 10 div 10 div 10 mod 10), digit_char (n div 10 div 10 mod 10),
     digit_char (n div 10 mod 10), digit_char (n mod 10)]"
proof -
  have b1: "10 \<le> n" "10 \<le> n div 10" "10 \<le> n div 10 div 10" "10 \<le> n div 10 div 10 div 10"
    "10 \<le> n div 10 div 10 div 10 div 10"
    using assms by arith+
  have b6: "n div 10 div 10 div 10 div 10 div 10 < 10"
    using assms by arith
  have "str_nat n = str_nat (n div 10 div 10 div 10 div 10 div 10) @
     [digit_char (n div 10 div 10 div 10 div 10 mod 10), digit_char (n div 10 div 10 div 10 mod 10),
      digit_char (n div 10 div 10 mod 10), digit_char (n div 10 mod 10), digit_char (n mod 10)]"
    by (simp only: str_nat_step[OF b1(1)] str_nat_step[OF b1(2)] str_nat_step[OF b1(3)]
          str_nat_step[OF b1(4)] str_nat_step[OF b1(5)] append_assoc append_Cons append_Nil)
  then show ?thesis
    by (simp only: str_nat_base[OF b6] append_Cons append_Nil)
qed

lemma digit_cases: "k < 10 \<Longrightarrow> k \<in> {0, 1, 2, 3, 4, 5, 6, 7, 8, 9::nat}"
  by auto

lemma digit_char_ascii: "k < 10 \<Longrightarrow> ascii_digit (digit_char k)"
  using digit_cases[of k] by (auto simp: ascii_digit_def digit_char_def)

lemma digit_char_inj: "a < 10 \<Longrightarrow> b < 10 \<Longrightarrow> digit_char a = digit_char b \<Longrightarrow> a = b"
  using digit_cases[of a] digit_cases[of b] by (auto simp: digit_char_def)

lemma digit_char_zero: "k < 10 \<Longrightarrow> digit_char k = CHR ''0'' \<Longrightarrow> k = 0"
  using digit_cases[of k] by (auto simp: digit_char_def)

lemma div_mod_10_eq: "a div 10 = b div 10 \<Longrightarrow> a mod 10 = b mod 10 \<Longrightarrow> a = (b::nat)"
  by (metis div_mult_mod_eq)

lemma str_nat_six_inj:
  assumes n: "100000 \<le> n" "n \<le> 999999" and m: "100000 \<le> m" "m \<le> 999999"
    and eq: "str_nat n = str_nat m"
  shows "n = m"
proof -
  have ln: "n div 10 div 10 div 10 div 10 div 10 < 10"
    using n by arith
  have lm: "m div 10 div 10 div 10 div 10 div 10 < 10"
    using m by arith
  from eq have d:
    "digit_char (n div 10 div 10 div 10 div 10 div 10) = digit_char (m div 10 div 10 div 10 div 10 div 10)"
    "digit_char (n div 10 div 10 div 10 div 10 mod 10) = digit_char (m div 10 div 10 div 10 div 10 mod 10)"
    "digit_char (n div 10 div 10 div 10 mod 10) = digit_char (m div 10 div 10 div 10 mod 10)"
    "digit_char (n div 10 div 10 mod 10) = digit_char (m div 10 div 10 mod 10)"
    "digit_char (n div 10 mod 10) = digit_char (m div 10 mod 10)"
    "digit_char (n mod 10) = digit_char (m mod 10)"
    by (simp_all only: str_nat_six[OF n] str_nat_six[OF m] list.inject)
  have lt: "\<And>k::nat. k mod 10 < 10"
    by simp
  have e5: "n div 10 div 10 div 10 div 10 div 10 = m div 10 div 10 div 10 div 10 div 10"
    by (rule digit_char_inj[OF ln lm d(1)])
  have e4: "n div 10 div 10 div 10 div 10 = m div 10 div 10 div 10 div 10"
    by (rule div_mod_10_eq[OF e5 digit_char_inj[OF lt lt d(2)]])
  have e3: "n div 10 div 10 div 10 = m div 10 div 10 div 10"
    by (rule div_mod_10_eq[OF e4 digit_char_inj[OF lt lt d(3)]])
  have e2: "n div 10 div 10 = m div 10 div 10"
    by (rule div_mod_10_eq[OF e3 digit_char_inj[OF lt lt d(4)]])
  have e1: "n div 10 = m div 10"
    by (rule div_mod_10_eq[OF e2 digit_char_inj[OF lt lt d(5)]])
  show ?thesis
    by (rule div_mod_10_eq[OF e1 digit_char_inj[OF lt lt d(6)]])
qed

lemma str_int_six:
  assumes "100000 \<le> r" "r \<le> 999999"
  shows "length (str_int r) = 6 \<and> list_all ascii_digit (str_int r) \<and> hd (str_int r) \<noteq> CHR ''0''"
proof -
  have n: "100000 \<le> nat r" "nat r \<le> 999999"
    using assms by simp_all
  have s: "str_int r = str_nat (nat r)"
    using assms by (simp add: str_int_def)
  have lead: "nat r div 10 div 10 div 10 div 10 div 10 < 10" "nat r div 10 div 10 div 10 div 10 div 10 \<noteq> 0"
    using n by arith+
  have "hd (str_nat (nat r)) \<noteq> CHR ''0''"
    using digit_char_zero[OF lead(1)] lead(2) by (auto simp: str_nat_six[OF n])
  moreover have "list_all ascii_digit (str_nat (nat r))"
    using lead(1) by (simp add: str_nat_six[OF n] digit_char_ascii)
  moreover have "length (str_nat (nat r)) = 6"
    by (simp add: str_nat_six[OF n])
  ultimately show ?thesis
    by (simp add: s)
qed

text \<open>
  C8, as amended. Every verification code that \<open>register\<close> and \<open>send_verification\<close> issue
  is the decimal numeral of the integer drawn from 100000..999999: six ASCII digits of
  which the first is never zero, and two draws that give the same code are the same
  draw.
\<close>

theorem issue_code_six_digits_nonzero_lead:
  assumes "100000 \<le> randint env" "randint env \<le> 999999"
  shows "length (issue_code env) = 6 \<and> list_all ascii_digit (issue_code env) \<and>
         hd (issue_code env) \<noteq> CHR ''0'' \<and>
         (\<forall>env'. 100000 \<le> randint env' \<and> randint env' \<le> 999999 \<and> issue_code env' = issue_code env
            \<longrightarrow> randint env' = randint env)"
proof -
  have inj: "randint env' = randint env"
    if r: "100000 \<le> randint env'" "randint env' \<le> 999999" and eq: "issue_code env' = issue_code env"
    for env' :: env
  proof -
    have "str_nat (nat (randint env')) = str_nat (nat (randint env))"
      using eq r assms by (simp add: issue_code_def str_int_def)
    then have "nat (randint env') = nat (randint env)"
      using r assms by (intro str_nat_six_inj) simp_all
    then show ?thesis
      using r assms by simp
  qed
  show ?thesis
    using str_int_six[OF assms] inj by (auto simp: issue_code_def)
qed

theorem issue_code_six_digits_witness:
  "100000 \<le> randint env_queued \<and> randint env_queued \<le> 999999 \<and>
   issue_code env_queued = ''123456'' \<and> length (issue_code env_queued) = 6 \<and>
   hd (issue_code env_queued) \<noteq> CHR ''0''"
proof -
  have r: "100000 \<le> randint env_queued" "randint env_queued \<le> 999999"
    by (simp_all add: env_queued_def)
  have "issue_code env_queued = ''123456''"
    by (simp add: issue_code_def env_queued_def str_int_def str_nat_step str_nat_base digit_char_def)
  moreover have "length (issue_code env_queued) = 6 \<and> hd (issue_code env_queued) \<noteq> CHR ''0''"
    using issue_code_six_digits_nonzero_lead [OF r] by blast
  ultimately show ?thesis
    using r by blast
qed

text \<open>
  C8 as stated fails: \<open>012345\<close> is a six-digit numeric string with a leading zero, and no
  draw from 100000..999999 issues it.
\<close>

theorem leading_zero_code_never_issued:
  "length ''012345'' = 6 \<and> list_all ascii_digit ''012345'' \<and>
   \<not> (\<exists>env. 100000 \<le> randint env \<and> randint env \<le> 999999 \<and> issue_code env = ''012345'')"
proof -
  have "issue_code env \<noteq> ''012345''" if "100000 \<le> randint env" "randint env \<le> 999999" for env :: env
  proof
    assume "issue_code env = ''012345''"
    then have "hd (str_int (randint env)) = CHR ''0''"
      by (simp add: issue_code_def)
    with str_int_six[OF that] show False
      by simp
  qed
  then show ?thesis
    by (auto simp: ascii_digit_def)
qed

section \<open>SMS gateway: one log row per send\<close>

lemma new_Smsmessage_valid:
  assumes "purpose \<in> set [''verify'', ''invite'', ''reminder'', ''gate_code'']"
    and "status \<in> set [''queued'', ''sent'', ''delivered'', ''failed'']"
  shows "new_Smsmessage to body purpose status sid err =
     Inr \<lparr>m_to = Some to, m_body = Some body, m_purpose = Some purpose, m_status = Some status,
          m_provider_message_sid = sid, m_error_code = None,
          m_error_message = err, m_logs = [], m_updated_at = None\<rparr>"
  using assms unfolding new_Smsmessage_def by simp

lemma send_sms_logged:
  assumes "purpose \<in> set [''verify'', ''invite'', ''reminder'', ''gate_code'']"
  shows "send_sms d env to body purpose =
     (let (sid, status, err) =
            (if twilio_client env \<and> truthy (TWILIO_FROM_NUMBER env)
             then (case messages_create env of
                     Inr s \<Rightarrow> (Some s, ''sent'', None)
                   | Inl e \<Rightarrow> (None, ''failed'', Some (str_exc e)))
             else (None, ''queued'', None))
      in Inr (sid,
              d\<lparr>smsmessage := smsmessage d @
                 [(new_sms_id env,
                   \<lparr>m_to = Some (normalize_phone to), m_body = Some body, m_purpose = Some purpose,
                    m_status = Some status, m_provider_message_sid = sid, m_error_code = None,
                    m_error_message = err, m_logs = [], m_updated_at = None\<rparr>)]\<rparr>))"
proof -
  define tn where "tn = normalize_phone to"
  have mk: "new_Smsmessage tn body purpose st sid err =
     Inr \<lparr>m_to = Some tn, m_body = Some body, m_purpose = Some purpose, m_status = Some st,
          m_provider_message_sid = sid, m_error_code = None,
          m_error_message = err, m_logs = [], m_updated_at = None\<rparr>"
    if "st \<in> set [''queued'', ''sent'', ''delivered'', ''failed'']" for st sid err
    using assms that by (rule new_Smsmessage_valid)
  have q: "''queued'' \<in> set [''queued'', ''sent'', ''delivered'', ''failed'']"
    and s: "''sent'' \<in> set [''queued'', ''sent'', ''delivered'', ''failed'']"
    and f: "''failed'' \<in> set [''queued'', ''sent'', ''delivered'', ''failed'']"
    by simp_all
  show ?thesis
  proof (cases "twilio_client env")
    case False
    then show ?thesis
      by (simp add: send_sms_def send_sms_try_def mk[OF q] create_document_def flip: tn_def)
  next
    case client: True
    show ?thesis
    proof (cases "truthy (TWILIO_FROM_NUMBER env)")
      case False
      with client show ?thesis
        by (simp add: send_sms_def send_sms_try_def mk[OF q] create_document_def flip: tn_def)
    next
      case True
      show ?thesis
      proof (cases "messages_create env")
        case (Inl e)
        with client True show ?thesis
          by (simp add: send_sms_def send_sms_try_def mk[OF f] create_document_def flip: tn_def)
      next
        case (Inr sid)
        with client True show ?thesis
          by (simp add: send_sms_def send_sms_try_def mk[OF s] create_document_def flip: tn_def)
      qed
    qed
  qed
qed

text \<open>
  C5. Called with one of the four purposes, the gateway returns normally and leaves the
  store as it was but for one row appended to the message log, under the identity the
  driver generated: with status \<open>sent\<close> and the provider's sid, which it returns, when a
  provider is configured and the send succeeds; with status \<open>failed\<close> and the text of the
  exception, returning nothing, when the send raises; with status \<open>queued\<close>, returning
  nothing, when no provider is configured. The rows already logged and the other
  collections are unchanged.
\<close>

theorem send_sms_writes_one_row:
  assumes "purpose \<in> set [''verify'', ''invite'', ''reminder'', ''gate_code'']"
  shows "send_sms d env to body purpose =
     (let (sid, status, err) =
            (if twilio_client env \<and> truthy (TWILIO_FROM_NUMBER env)
             then (case messages_create env of
                     Inr s \<Rightarrow> (Some s, ''sent'', None)
                   | Inl e \<Rightarrow> (None, ''failed'', Some (str_exc e)))
             else (None, ''queued'', None))
      in Inr (sid,
              d\<lparr>smsmessage := smsmessage d @
                 [(new_sms_id env,
                   \<lparr>m_to = Some (normalize_phone to), m_body = Some body, m_purpose = Some purpose,
                    m_status = Some status, m_provider_message_sid = sid, m_error_code = None,
                    m_error_message = err, m_logs = [], m_updated_at = None\<rparr>)]\<rparr>))"
  using assms by (rule send_sms_logged)

theorem send_sms_writes_one_row_witness:
  "''verify'' \<in> set [''verify'', ''invite'', ''reminder'', ''gate_code''] \<and>
   send_sms store1 env_failing ''555-000-1111'' ''hi'' ''verify'' =
     Inr (None,
          store1\<lparr>smsmessage := smsmessage store1 @
             [(''m3'',
               \<lparr>m_to = Some ''+15550001111'', m_body = Some ''hi'', m_purpose = Some ''verify'',
                m_status = Some ''failed'', m_provider_message_sid = None, m_error_code = None,
                m_error_message = Some ''timeout'', m_logs = [], m_updated_at = None\<rparr>)]\<rparr>)"
proof -
  have p: "''verify'' \<in> set [''verify'', ''invite'', ''reminder'', ''gate_code'']"
    by simp
  have n: "normalize_phone ''555-000-1111'' = ''+15550001111''"
    by (simp add: normalize_phone_def Let_def isdigit_def isspace_def strip_def startswith_def)
  show ?thesis
    using p send_sms_writes_one_row [OF p, of store1 env_failing "''555-000-1111''" "''hi''"]
    by (simp add: n env_failing_def truthy_def)
qed

section \<open>The document store\<close>

lemma find_one_None: "find_one flt ds = None \<longleftrightarrow> (\<forall>x\<in>set ds. \<not> flt x)"
  by (auto simp: find_one_def find_None_iff)

lemma find_one_SomeD: "find_one flt ds = Some x \<Longrightarrow> flt x \<and> x \<in> set ds"
  by (auto simp: find_one_def find_Some_iff)

lemma length_update_one [simp]: "length (update_one flt upd ds) = length ds"
  by (induction ds) auto

lemma update_one_no_match: "\<forall>x\<in>set ds. \<not> flt x \<Longrightarrow> update_one flt upd ds = ds"
  by (induction ds) auto

lemma update_one_by_id:
  assumes "distinct (map fst ds)"
  shows "update_one (\<lambda>doc. fst doc = i) upd ds = map (\<lambda>doc. if fst doc = i then upd doc else doc) ds"
  using assms
proof (induction ds)
  case Nil
  then show ?case by simp
next
  case (Cons x xs)
  show ?case
  proof (cases "fst x = i")
    case True
    from Cons.prems have "fst x \<notin> fst ` set xs"
      by simp
    with True have "\<forall>doc\<in>set xs. fst doc \<noteq> i"
      by (auto simp: image_iff)
    then have "map (\<lambda>doc. if fst doc = i then upd doc else doc) xs = xs"
      by (induction xs) auto
    with True show ?thesis by simp
  next
    case False
    with Cons show ?thesis by simp
  qed
qed

section \<open>Confirming a verification code\<close>

lemma normalize_phone_ana: "normalize_phone ''555-000-1111'' = ''+15550001111''"
  by (simp add: normalize_phone_def Let_def isdigit_def isspace_def strip_def startswith_def)

lemma normalize_phone_999: "normalize_phone ''999'' = ''+999''"
  by (simp add: normalize_phone_def Let_def isdigit_def isspace_def strip_def startswith_def)

lemma distinct_store1: "distinct (map fst (contact store1))"
  by (simp add: store1_def)

lemma find_ana:
  "find_one (\<lambda>doc. c_phone (snd doc) = ''+15550001111'') (contact store1) =
     Some (''aaaaaaaaaaaaaaaaaaaaaaaa'', ana)"
  by (simp add: find_one_def store1_def ana_def)

text \<open>
  C2. With the store available, \<open>confirm_verification\<close> answers 404 when no contact has
  the normalized phone, and 400 when the first contact that has it does not store exactly
  the submitted code (a contact with no code outstanding included; nothing is normalized
  and no expiry is looked at); in both cases the store is left as it was. When the stored
  code is the submitted one it answers with the contact's id, and that contact, and no
  other document, now has \<open>phone_verified\<close> true, no verification code and the current
  time as \<open>updated_at\<close>.
\<close>

theorem confirm_verification_outcomes:
  assumes "distinct (map fst (contact d))"
  shows
    "((\<forall>doc\<in>set (contact d). c_phone (snd doc) \<noteq> normalize_phone raw) \<longrightarrow>
        confirm_verification (Some d) env raw code =
          (Inl (HTTPException 404 ''Contact not found''), Some d)) \<and>
     (\<forall>i c. find_one (\<lambda>doc. c_phone (snd doc) = normalize_phone raw) (contact d) = Some (i, c) \<longrightarrow>
        (c_verification_code c \<noteq> Some code \<longrightarrow>
           confirm_verification (Some d) env raw code =
             (Inl (HTTPException 400 ''Invalid verification code''), Some d)) \<and>
        (c_verification_code c = Some code \<longrightarrow>
           confirm_verification (Some d) env raw code =
             (Inr (Verified ''Phone verified'' (str_oid i)),
              Some (d\<lparr>contact :=
                 map (\<lambda>doc. if fst doc = i
                             then (i, c\<lparr>c_phone_verified := True, c_verification_code := None,
                                         c_updated_at := Some (now env)\<rparr>)
                             else doc) (contact d)\<rparr>))))"
proof (intro conjI allI impI)
  assume "\<forall>doc\<in>set (contact d). c_phone (snd doc) \<noteq> normalize_phone raw"
  then have "find_one (\<lambda>doc. c_phone (snd doc) = normalize_phone raw) (contact d) = None"
    by (simp add: find_one_None)
  then show "confirm_verification (Some d) env raw code =
      (Inl (HTTPException 404 ''Contact not found''), Some d)"
    by (simp add: confirm_verification_def)
next
  fix i c
  assume "find_one (\<lambda>doc. c_phone (snd doc) = normalize_phone raw) (contact d) = Some (i, c)"
    and "c_verification_code c \<noteq> Some code"
  then show "confirm_verification (Some d) env raw code =
      (Inl (HTTPException 400 ''Invalid verification code''), Some d)"
    by (auto simp: confirm_verification_def)
next
  fix i c
  assume f: "find_one (\<lambda>doc. c_phone (snd doc) = normalize_phone raw) (contact d) = Some (i, c)"
    and eq: "c_verification_code c = Some code"
  from f have mem: "(i, c) \<in> set (contact d)"
    by (auto dest: find_one_SomeD)
  have "map (\<lambda>doc. if fst doc = i then set_verified (now env) doc else doc) (contact d) =
        map (\<lambda>doc. if fst doc = i
                    then (i, c\<lparr>c_phone_verified := True, c_verification_code := None,
                                c_updated_at := Some (now env)\<rparr>)
                    else doc) (contact d)"
  proof (rule map_cong[OF refl])
    fix doc assume "doc \<in> set (contact d)"
    with mem assms have "fst doc = i \<Longrightarrow> doc = (i, c)"
      by (metis distinct_map inj_onD fst_conv)
    then show "(if fst doc = i then set_verified (now env) doc else doc) =
        (if fst doc = i
         then (i, c\<lparr>c_phone_verified := True, c_verification_code := None,
                     c_updated_at := Some (now env)\<rparr>)
         else doc)"
      by (cases doc) (auto simp: set_verified_def)
  qed
  with f eq show "confirm_verification (Some d) env raw code =
      (Inr (Verified ''Phone verified'' (str_oid i)),
       Some (d\<lparr>contact :=
          map (\<lambda>doc. if fst doc = i
                      then (i, c\<lparr>c_phone_verified := True, c_verification_code := None,
                                  c_updated_at := Some (now env)\<rparr>)
                      else doc) (contact d)\<rparr>))"
    by (simp add: confirm_verification_def update_one_by_id[OF assms])
qed

theorem confirm_verification_witness:
  "distinct (map fst (contact store1)) \<and>
   confirm_verification (Some store1) env_queued ''999'' ''111111'' =
     (Inl (HTTPException 404 ''Contact not found''), Some store1) \<and>
   confirm_verification (Some store1) env_queued ''555-000-1111'' ''000000'' =
     (Inl (HTTPException 400 ''Invalid verification code''), Some store1) \<and>
   confirm_verification (Some store1) env_queued ''555-000-1111'' ''111111'' =
     (Inr (Verified ''Phone verified'' ''aaaaaaaaaaaaaaaaaaaaaaaa''),
      Some (store1\<lparr>contact :=
         [(''aaaaaaaaaaaaaaaaaaaaaaaa'',
           ana\<lparr>c_phone_verified := True, c_verification_code := None, c_updated_at := Some 7\<rparr>)]\<rparr>))"
proof -
  have none: "\<forall>doc\<in>set (contact store1). c_phone (snd doc) \<noteq> normalize_phone ''999''"
    by (simp add: normalize_phone_999 store1_def ana_def)
  have code: "c_verification_code ana = Some ''111111''" "c_verification_code ana \<noteq> Some ''000000''"
    by (simp_all add: ana_def)
  have a: "confirm_verification (Some store1) env_queued ''999'' ''111111'' =
     (Inl (HTTPException 404 ''Contact not found''), Some store1)"
    using confirm_verification_outcomes [OF distinct_store1, of "''999''" env_queued "''111111''"] none
    by blast
  have b: "confirm_verification (Some store1) env_queued ''555-000-1111'' ''000000'' =
     (Inl (HTTPException 400 ''Invalid verification code''), Some store1)"
    using confirm_verification_outcomes [OF distinct_store1, of "''555-000-1111''" env_queued "''000000''"]
      find_ana code(2)
    by (simp add: normalize_phone_ana)
  have c: "confirm_verification (Some store1) env_queued ''555-000-1111'' ''111111'' =
     (Inr (Verified ''Phone verified'' (str_oid ''aaaaaaaaaaaaaaaaaaaaaaaa'')),
      Some (store1\<lparr>contact :=
         map (\<lambda>doc. if fst doc = ''aaaaaaaaaaaaaaaaaaaaaaaa''
                     then (''aaaaaaaaaaaaaaaaaaaaaaaa'',
                           ana\<lparr>c_phone_verified := True, c_verification_code := None,
                               c_updated_at := Some (now env_queued)\<rparr>)
                     else doc) (contact store1)\<rparr>))"
    using confirm_verification_outcomes [OF distinct_store1, of "''555-000-1111''" env_queued "''111111''"]
      find_ana code(1)
    by (simp add: normalize_phone_ana)
  have d: "map (\<lambda>doc. if fst doc = ''aaaaaaaaaaaaaaaaaaaaaaaa''
                     then (''aaaaaaaaaaaaaaaaaaaaaaaa'',
                           ana\<lparr>c_phone_verified := True, c_verification_code := None,
                               c_updated_at := Some (now env_queued)\<rparr>)
                     else doc) (contact store1) =
         [(''aaaaaaaaaaaaaaaaaaaaaaaa'',
           ana\<lparr>c_phone_verified := True, c_verification_code := None, c_updated_at := Some 7\<rparr>)]"
    by (simp add: store1_def env_queued_def)
  show ?thesis
    using distinct_store1 a b c by (simp add: d str_oid_def)
qed

section \<open>Delivery status webhook: reconciliation\<close>

lemma find_one_first:
  "\<forall>x\<in>set pre. \<not> flt x \<Longrightarrow> flt y \<Longrightarrow> find_one flt (pre @ y # post) = Some y"
  by (induction pre) (auto simp: find_one_def)

lemma update_one_first:
  "\<forall>x\<in>set pre. \<not> flt x \<Longrightarrow> flt y \<Longrightarrow> update_one flt upd (pre @ y # post) = pre @ upd y # post"
  by (induction pre) auto

text \<open>
  C7, as amended. A callback without a \<open>MessageSid\<close>, or with an empty one, is
  acknowledged with \<open>{ok: true}\<close> and the store is left as it was, whether a database is
  there or not. A callback with a sid is answered 500 when no database is available.
  With the database available it is acknowledged, and the message log is upserted by
  the sid: when no row has the sid, one row is appended that holds the sid, the status,
  \<open>updated_at\<close> and a log of one entry, and no other field; otherwise the first row with
  the sid gets the status and \<open>updated_at\<close> and exactly one entry
  \<open>{status, at, to, error_code}\<close> appended to its logs, and every other row is unchanged.
\<close>

theorem sms_status_webhook_reconciles:
  "(\<not> truthy (MessageSid f) \<longrightarrow> sms_status_webhook db env f = (Inr Ack, db)) \<and>
   (truthy (MessageSid f) \<longrightarrow>
      sms_status_webhook None env f = (Inl (HTTPException 500 ''Database not available''), None) \<and>
      ((\<forall>doc\<in>set (smsmessage d). m_provider_message_sid (snd doc) \<noteq> MessageSid f) \<longrightarrow>
         sms_status_webhook (Some d) env f =
           (Inr Ack,
            Some (d\<lparr>smsmessage := smsmessage d @
               [(new_sms_id env,
                 \<lparr>m_to = None, m_body = None, m_purpose = None, m_status = MessageStatus f,
                  m_provider_message_sid = MessageSid f, m_error_code = None,
                  m_error_message = None,
                  m_logs = [\<lparr>l_status = MessageStatus f, l_at = now2 env, l_to = To f,
                             l_error_code = ErrorCode f\<rparr>],
                  m_updated_at = Some (now env)\<rparr>)]\<rparr>))) \<and>
      (\<forall>pre i m post.
         smsmessage d = pre @ (i, m) # post \<and>
         (\<forall>doc\<in>set pre. m_provider_message_sid (snd doc) \<noteq> MessageSid f) \<and>
         m_provider_message_sid m = MessageSid f \<longrightarrow>
         sms_status_webhook (Some d) env f =
           (Inr Ack,
            Some (d\<lparr>smsmessage := pre @
               (i, m\<lparr>m_status := MessageStatus f, m_updated_at := Some (now env),
                      m_logs := m_logs m @
                        [\<lparr>l_status = MessageStatus f, l_at = now2 env, l_to = To f,
                          l_error_code = ErrorCode f\<rparr>]\<rparr>) # post\<rparr>))))"
proof (intro conjI allI impI)
  assume "\<not> truthy (MessageSid f)"
  then show "sms_status_webhook db env f = (Inr Ack, db)"
    by (simp add: sms_status_webhook_def)
next
  assume "truthy (MessageSid f)"
  then show "sms_status_webhook None env f = (Inl (HTTPException 500 ''Database not available''), None)"
    by (simp add: sms_status_webhook_def)
next
  assume t: "truthy (MessageSid f)"
    and "\<forall>doc\<in>set (smsmessage d). m_provider_message_sid (snd doc) \<noteq> MessageSid f"
  then have "find_one (\<lambda>doc. m_provider_message_sid (snd doc) = MessageSid f) (smsmessage d) = None"
    by (simp add: find_one_None)
  with t show "sms_status_webhook (Some d) env f =
           (Inr Ack,
            Some (d\<lparr>smsmessage := smsmessage d @
               [(new_sms_id env,
                 \<lparr>m_to = None, m_body = None, m_purpose = None, m_status = MessageStatus f,
                  m_provider_message_sid = MessageSid f, m_error_code = None,
                  m_error_message = None,
                  m_logs = [\<lparr>l_status = MessageStatus f, l_at = now2 env, l_to = To f,
                             l_error_code = ErrorCode f\<rparr>],
                  m_updated_at = Some (now env)\<rparr>)]\<rparr>))"
    by (simp add: sms_status_webhook_def update_one_upsert_def upserted_row_def status_entry_def)
next
  fix pre i m post
  assume t: "truthy (MessageSid f)"
    and h: "smsmessage d = pre @ (i, m) # post \<and>
         (\<forall>doc\<in>set pre. m_provider_message_sid (snd doc) \<noteq> MessageSid f) \<and>
         m_provider_message_sid m = MessageSid f"
  let ?flt = "\<lambda>doc. m_provider_message_sid (snd doc) = MessageSid f"
  from h have pre: "\<forall>x\<in>set pre. \<not> ?flt x" and hit: "?flt (i, m)"
    by simp_all
  have fo: "find_one ?flt (smsmessage d) = Some (i, m)"
    using find_one_first[of pre ?flt "(i, m)" post] pre hit h by simp
  have up: "update_one ?flt (apply_status env f) (smsmessage d) = pre @ apply_status env f (i, m) # post"
    using update_one_first[of pre ?flt "(i, m)" "apply_status env f" post] pre hit h by simp
  from t show "sms_status_webhook (Some d) env f =
           (Inr Ack,
            Some (d\<lparr>smsmessage := pre @
               (i, m\<lparr>m_status := MessageStatus f, m_updated_at := Some (now env),
                      m_logs := m_logs m @
                        [\<lparr>l_status = MessageStatus f, l_at = now2 env, l_to = To f,
                          l_error_code = ErrorCode f\<rparr>]\<rparr>) # post\<rparr>))"
    by (simp add: sms_status_webhook_def update_one_upsert_def fo up apply_status_def status_entry_def)
qed

theorem sms_status_webhook_witness:
  "sms_status_webhook (Some store1) env_queued callback_no_sid = (Inr Ack, Some store1) \<and>
   sms_status_webhook (Some store1) env_queued callback_SM9 =
     (Inr Ack,
      Some (store1\<lparr>smsmessage := smsmessage store1 @
         [(''m2'',
           \<lparr>m_to = None, m_body = None, m_purpose = None, m_status = Some ''failed'',
            m_provider_message_sid = Some ''SM9'', m_error_code = None, m_error_message = None,
            m_logs = [\<lparr>l_status = Some ''failed'', l_at = 8, l_to = Some ''+15550002222'',
                       l_error_code = Some ''30003''\<rparr>],
            m_updated_at = Some 7\<rparr>)]\<rparr>)) \<and>
   sms_status_webhook (Some store1) env_queued callback_SM1 =
     (Inr Ack,
      Some (store1\<lparr>smsmessage :=
         [(''m1'',
           row_SM1\<lparr>m_status := Some ''delivered'', m_updated_at := Some 7,
                    m_logs := [\<lparr>l_status = Some ''delivered'', l_at = 8,
                                l_to = Some ''+15550001111'', l_error_code = None\<rparr>]\<rparr>)]\<rparr>))"
proof -
  have a: "sms_status_webhook (Some store1) env_queued callback_no_sid = (Inr Ack, Some store1)"
    using sms_status_webhook_reconciles [of callback_no_sid "Some store1" env_queued store1]
    by (simp add: callback_no_sid_def truthy_def)
  have b: "sms_status_webhook (Some store1) env_queued callback_SM9 =
     (Inr Ack,
      Some (store1\<lparr>smsmessage := smsmessage store1 @
         [(''m2'',
           \<lparr>m_to = None, m_body = None, m_purpose = None, m_status = Some ''failed'',
            m_provider_message_sid = Some ''SM9'', m_error_code = None, m_error_message = None,
            m_logs = [\<lparr>l_status = Some ''failed'', l_at = 8, l_to = Some ''+15550002222'',
                       l_error_code = Some ''30003''\<rparr>],
            m_updated_at = Some 7\<rparr>)]\<rparr>))"
    using sms_status_webhook_reconciles [of callback_SM9 "Some store1" env_queued store1]
    by (simp add: callback_SM9_def truthy_def store1_def row_SM1_def env_queued_def)
  have c0: "smsmessage store1 = [] @ (''m1'', row_SM1) # [] \<and>
         (\<forall>doc\<in>set []. m_provider_message_sid (snd doc) \<noteq> MessageSid callback_SM1) \<and>
         m_provider_message_sid row_SM1 = MessageSid callback_SM1"
    by (simp add: store1_def row_SM1_def callback_SM1_def)
  have t: "truthy (MessageSid callback_SM1)"
    by (simp add: callback_SM1_def truthy_def)
  have "sms_status_webhook (Some store1) env_queued callback_SM1 =
           (Inr Ack,
            Some (store1\<lparr>smsmessage := [] @
               (''m1'', row_SM1\<lparr>m_status := MessageStatus callback_SM1, m_updated_at := Some (now env_queued),
                      m_logs := m_logs row_SM1 @
                        [\<lparr>l_status = MessageStatus callback_SM1, l_at = now2 env_queued, l_to = To callback_SM1,
                          l_error_code = ErrorCode callback_SM1\<rparr>]\<rparr>) # []\<rparr>))"
    using sms_status_webhook_reconciles [of callback_SM1 "Some store1" env_queued store1] t c0
    by blast
  then have c: "sms_status_webhook (Some store1) env_queued callback_SM1 =
     (Inr Ack,
      Some (store1\<lparr>smsmessage :=
         [(''m1'',
           row_SM1\<lparr>m_status := Some ''delivered'', m_updated_at := Some 7,
                    m_logs := [\<lparr>l_status = Some ''delivered'', l_at = 8,
                                l_to = Some ''+15550001111'', l_error_code = None\<rparr>]\<rparr>)]\<rparr>))"
    by (simp add: callback_SM1_def env_queued_def row_SM1_def)
  show ?thesis
    using a b c by simp
qed

text \<open>
  C7 as stated fails: a callback that carries a sid is not acknowledged when no database
  is available; \<open>_collection\<close> raises the 500 error.
\<close>

theorem sms_status_webhook_no_database:
  "truthy (MessageSid callback_SM1) \<and>
   sms_status_webhook None env_queued callback_SM1 =
     (Inl (HTTPException 500 ''Database not available''), None)"
  by (simp add: sms_status_webhook_def callback_SM1_def truthy_def)

section \<open>Registration and resend\<close>

lemma send_sms_verify:
  "\<exists>sid row. send_sms d env to body ''verify'' =
     Inr (sid, d\<lparr>smsmessage := smsmessage d @ [(new_sms_id env, row)]\<rparr>)"
proof -
  have "''verify'' \<in> set [''verify'', ''invite'', ''reminder'', ''gate_code'']"
    by simp
  from send_sms_logged[OF this, of d env to body] show ?thesis
    by (auto simp: Let_def split: prod.splits)
qed

lemma register_contact_existing:
  assumes "find_one (\<lambda>doc. c_phone (snd doc) = normalize_phone (p_phone payload)) (contact d) = Some ex"
  shows "\<exists>row. register_contact (Some d) env payload =
     (Inr (Registered (str_oid (fst ex)) (normalize_phone (p_phone payload))
             ''Contact exists, verification re-sent''),
      Some (d\<lparr>contact := update_one (\<lambda>doc. fst doc = fst ex)
                             (set_code (issue_code env) (now env)) (contact d),
              smsmessage := smsmessage d @ [(new_sms_id env, row)]\<rparr>))"
proof -
  let ?d1 = "d\<lparr>contact := update_one (\<lambda>doc. fst doc = fst ex)
                             (set_code (issue_code env) (now env)) (contact d)\<rparr>"
  obtain sid row where
    "send_sms ?d1 env (normalize_phone (p_phone payload))
       (''Anomaly verification code: '' @ issue_code env) ''verify'' =
     Inr (sid, ?d1\<lparr>smsmessage := smsmessage ?d1 @ [(new_sms_id env, row)]\<rparr>)"
    using send_sms_verify by blast
  with assms show ?thesis
    by (auto simp: register_contact_def Let_def)
qed

lemma register_contact_new:
  assumes "find_one (\<lambda>doc. c_phone (snd doc) = normalize_phone (p_phone payload)) (contact d) = None"
    and "lower (or_else (p_brand_queue payload) ''anomaly'') \<in> set [''anomaly'', ''arcane'']"
  shows "\<exists>c row. register_contact (Some d) env payload =
     (Inr (Registered (str_oid (new_contact_id env)) (normalize_phone (p_phone payload))
             ''Registration received. Verification sent.''),
      Some (d\<lparr>contact := contact d @ [(new_contact_id env, c)],
              smsmessage := smsmessage d @ [(new_sms_id env, row)]\<rparr>)) \<and>
     c_phone c = normalize_phone (p_phone payload) \<and> \<not> c_phone_verified c \<and>
     c_verification_code c = Some (issue_code env)"
proof -
  define seg where "seg =
     (if upper (strip (or_else (p_state payload) []))
           \<in> set [''CA'', ''NY'', ''NV'', ''WA'', ''OR'', ''TX'', ''FL'']
      then ''local'' else ''out_of_state'')"
  define c where "c =
     \<lparr>c_name = p_name payload, c_phone = normalize_phone (p_phone payload), c_email = p_email payload,
      c_headshot_url = p_headshot_url payload, c_city = p_city payload, c_state = p_state payload,
      c_segment = seg, c_brand_queue = lower (or_else (p_brand_queue payload) ''anomaly''),
      c_status = ''pending'', c_phone_verified = False, c_referral_code = None,
      c_referred_by = p_referred_by payload, c_verification_code = Some (issue_code env),
      c_updated_at = None\<rparr>"
  have seg: "seg \<in> set [''local'', ''out_of_state'']"
    by (simp add: seg_def)
  have mk: "new_Contact (p_name payload) (normalize_phone (p_phone payload)) (p_email payload)
       (p_headshot_url payload) (p_city payload) (p_state payload)
       (lower (or_else (p_brand_queue payload) ''anomaly'')) seg
       ''pending'' False (p_referred_by payload) (Some (issue_code env)) = Inr c"
    using assms(2) seg unfolding new_Contact_def c_def by simp
  let ?d1 = "d\<lparr>contact := contact d @ [(new_contact_id env, c)]\<rparr>"
  obtain sid row where s:
    "send_sms ?d1 env (normalize_phone (p_phone payload))
       (''Anomaly verification code: '' @ issue_code env) ''verify'' =
     Inr (sid, ?d1\<lparr>smsmessage := smsmessage ?d1 @ [(new_sms_id env, row)]\<rparr>)"
    using send_sms_verify by blast
  have "register_contact (Some d) env payload =
     (Inr (Registered (str_oid (new_contact_id env)) (normalize_phone (p_phone payload))
             ''Registration received. Verification sent.''),
      Some (d\<lparr>contact := contact d @ [(new_contact_id env, c)],
              smsmessage := smsmessage d @ [(new_sms_id env, row)]\<rparr>))"
    using assms(1) mk s unfolding seg_def
    by (simp add: register_contact_def Let_def create_document_def)
  moreover have "c_phone c = normalize_phone (p_phone payload) \<and> \<not> c_phone_verified c \<and>
     c_verification_code c = Some (issue_code env)"
    by (simp add: c_def)
  ultimately show ?thesis
    by blast
qed

lemma register_contact_invalid_brand:
  assumes "find_one (\<lambda>doc. c_phone (snd doc) = normalize_phone (p_phone payload)) (contact d) = None"
    and "lower (or_else (p_brand_queue payload) ''anomaly'') \<notin> set [''anomaly'', ''arcane'']"
  shows "register_contact (Some d) env payload = (Inl (ValidationError ''brand_queue''), Some d)"
proof -
  define seg where "seg =
     (if upper (strip (or_else (p_state payload) []))
           \<in> set [''CA'', ''NY'', ''NV'', ''WA'', ''OR'', ''TX'', ''FL'']
      then ''local'' else ''out_of_state'')"
  have seg: "seg \<in> set [''local'', ''out_of_state'']"
    by (simp add: seg_def)
  have mk: "new_Contact (p_name payload) (normalize_phone (p_phone payload)) (p_email payload)
       (p_headshot_url payload) (p_city payload) (p_state payload)
       (lower (or_else (p_brand_queue payload) ''anomaly'')) seg
       ''pending'' False (p_referred_by payload) (Some (issue_code env)) = Inl (ValidationError ''brand_queue'')"
    using assms(2) seg unfolding new_Contact_def by simp
  show ?thesis
    using assms(1) mk unfolding seg_def
    by (simp add: register_contact_def Let_def)
qed

lemma send_verification_found:
  assumes "find_one (\<lambda>doc. c_phone (snd doc) = normalize_phone raw) (contact d) = Some ex"
  shows "\<exists>row. send_verification (Some d) env raw =
     (Inr (Message ''Verification sent''),
      Some (d\<lparr>contact := update_one (\<lambda>doc. fst doc = fst ex)
                             (set_code (issue_code env) (now env)) (contact d),
              smsmessage := smsmessage d @ [(new_sms_id env, row)]\<rparr>))"
proof -
  let ?d1 = "d\<lparr>contact := update_one (\<lambda>doc. fst doc = fst ex)
                             (set_code (issue_code env) (now env)) (contact d)\<rparr>"
  obtain sid row where
    "send_sms ?d1 env (normalize_phone raw)
       (''Anomaly verification code: '' @ issue_code env) ''verify'' =
     Inr (sid, ?d1\<lparr>smsmessage := smsmessage ?d1 @ [(new_sms_id env, row)]\<rparr>)"
    using send_sms_verify by blast
  with assms show ?thesis
    by (auto simp: send_verification_def Let_def)
qed

lemma send_verification_not_found:
  assumes "find_one (\<lambda>doc. c_phone (snd doc) = normalize_phone raw) (contact d) = None"
  shows "send_verification (Some d) env raw = (Inl (HTTPException 404 ''Contact not found''), Some d)"
  using assms by (simp add: send_verification_def)

lemma issue_code_queued: "issue_code env_queued = ''123456''"
  by (simp add: issue_code_def env_queued_def str_int_def str_nat_step str_nat_base digit_char_def)

lemma brand_default: "lower (or_else None ''anomaly'') = ''anomaly''"
  by (simp add: lower_def or_else_def lower_char_def)

lemma register_ana_first:
  "\<exists>d1. register_contact (Some store0) env_queued payload_ana =
     (Inr (Registered ''c2'' ''+15550001111'' ''Registration received. Verification sent.''), Some d1)"
proof -
  have f: "find_one (\<lambda>doc. c_phone (snd doc) = normalize_phone (p_phone payload_ana)) (contact store0) = None"
    by (simp add: find_one_def store0_def)
  have b: "lower (or_else (p_brand_queue payload_ana) ''anomaly'') \<in> set [''anomaly'', ''arcane'']"
    by (simp add: payload_ana_def brand_default)
  have n: "normalize_phone (p_phone payload_ana) = ''+15550001111''"
    by (simp add: payload_ana_def normalize_phone_ana)
  from register_contact_new[OF f b, of env_queued] show ?thesis
    by (auto simp: n str_oid_def env_queued_def)
qed


lemma find_one_update_one_fst:
  assumes "\<And>x. flt (upd x) = flt x" "\<And>x. fst (upd x) = fst x"
  shows "map_option fst (find_one flt (update_one sel upd ds)) = map_option fst (find_one flt ds)"
proof (induction ds)
  case Nil
  then show ?case by (simp add: find_one_def)
next
  case (Cons x xs)
  have IH: "map_option fst (find flt (update_one sel upd xs)) = map_option fst (find flt xs)"
    using Cons.IH by (simp add: find_one_def)
  show ?case
  proof (cases "sel x")
    case True
    have "map_option fst (find flt (upd x # xs)) = map_option fst (find flt (x # xs))"
      using assms(1)[of x] assms(2)[of x] by (cases "flt x") simp_all
    with True show ?thesis
      by (simp add: find_one_def)
  next
    case False
    with IH show ?thesis
      by (cases "flt x") (simp_all add: find_one_def)
  qed
qed

lemma set_code_phone [simp]: "c_phone (snd (set_code code t doc)) = c_phone (snd doc)"
  by (simp add: set_code_def)

lemma set_code_fst [simp]: "fst (set_code code t doc) = fst doc"
  by (simp add: set_code_def)

lemma register_contact_again:
  assumes first: "register_contact (Some d) env payload = (Inr (Registered rid ph msg), Some d1)"
    and same: "normalize_phone (p_phone p2) = normalize_phone (p_phone payload)"
  shows "\<exists>d2. register_contact (Some d1) env2 p2 =
           (Inr (Registered rid ph ''Contact exists, verification re-sent''), Some d2) \<and>
         length (contact d2) = length (contact d1)"
proof -
  let ?flt = "\<lambda>doc. c_phone (snd doc) = normalize_phone (p_phone payload)"
  have found: "\<exists>ex. find_one ?flt (contact d1) = Some ex \<and> str_oid (fst ex) = rid \<and>
      ph = normalize_phone (p_phone payload)"
  proof (cases "find_one ?flt (contact d)")
    case (Some ex)
    from register_contact_existing[OF Some, of env] first
    have d1: "contact d1 = update_one (\<lambda>doc. fst doc = fst ex)
                 (set_code (issue_code env) (now env)) (contact d)"
      and r: "rid = str_oid (fst ex)" "ph = normalize_phone (p_phone payload)"
      by auto
    have "map_option fst (find_one ?flt (contact d1)) = map_option fst (find_one ?flt (contact d))"
      unfolding d1 by (rule find_one_update_one_fst) simp_all
    with Some r show ?thesis
      by auto
  next
    case None
    show ?thesis
    proof (cases "lower (or_else (p_brand_queue payload) ''anomaly'') \<in> set [''anomaly'', ''arcane'']")
      case True
      from register_contact_new[OF None True, of env] first
      obtain c where d1: "contact d1 = contact d @ [(new_contact_id env, c)]"
        and c: "c_phone c = normalize_phone (p_phone payload)"
        and r: "rid = str_oid (new_contact_id env)" "ph = normalize_phone (p_phone payload)"
        by auto
      from None have "\<forall>x\<in>set (contact d). \<not> ?flt x"
        by (simp add: find_one_None)
      then have "find_one ?flt (contact d @ (new_contact_id env, c) # []) = Some (new_contact_id env, c)"
        using c by (intro find_one_first) simp_all
      with d1 r show ?thesis
        by simp
    next
      case False
      from register_contact_invalid_brand[OF None False, of env] first show ?thesis
        by simp
    qed
  qed
  then obtain ex where ex: "find_one ?flt (contact d1) = Some ex" "str_oid (fst ex) = rid"
      "ph = normalize_phone (p_phone payload)"
    by blast
  from ex(1) same have "find_one (\<lambda>doc. c_phone (snd doc) = normalize_phone (p_phone p2)) (contact d1) = Some ex"
    by simp
  from register_contact_existing[OF this, of env2] ex(2,3) same show ?thesis
    by auto
qed

text \<open>
  C3. Registering a phone that a contact already has creates no second contact. When
  the first contact with the normalized phone is \<open>c\<close> under the identity \<open>i\<close> (identities
  being unique), \<open>register\<close> returns \<open>i\<close>, and the contacts afterwards are the contacts
  before with \<open>c\<close>'s verification code overwritten by the freshly issued one and its
  \<open>updated_at\<close> by the current time: none is inserted. And whenever one registration has
  succeeded, a second one for a phone with the same normal form returns the first call's
  id and leaves the number of contacts unchanged.
\<close>

theorem register_contact_never_duplicates:
  "(distinct (map fst (contact d)) \<and>
    find_one (\<lambda>doc. c_phone (snd doc) = normalize_phone (p_phone payload)) (contact d) = Some (i, c) \<longrightarrow>
      (\<exists>d'. register_contact (Some d) env payload =
          (Inr (Registered (str_oid i) (normalize_phone (p_phone payload))
                  ''Contact exists, verification re-sent''), Some d') \<and>
        contact d' =
          map (\<lambda>doc. if fst doc = i
                      then (i, c\<lparr>c_verification_code := Some (issue_code env),
                                  c_updated_at := Some (now env)\<rparr>)
                      else doc) (contact d) \<and>
        length (contact d') = length (contact d))) \<and>
   (\<forall>rid ph msg d1 env2 p2.
      register_contact (Some d) env payload = (Inr (Registered rid ph msg), Some d1) \<and>
      normalize_phone (p_phone p2) = normalize_phone (p_phone payload) \<longrightarrow>
      (\<exists>d2. register_contact (Some d1) env2 p2 =
           (Inr (Registered rid ph ''Contact exists, verification re-sent''), Some d2) \<and>
         length (contact d2) = length (contact d1)))"
proof (intro conjI allI impI)
  assume h: "distinct (map fst (contact d)) \<and>
    find_one (\<lambda>doc. c_phone (snd doc) = normalize_phone (p_phone payload)) (contact d) = Some (i, c)"
  then have dist: "distinct (map fst (contact d))"
    and f: "find_one (\<lambda>doc. c_phone (snd doc) = normalize_phone (p_phone payload)) (contact d) = Some (i, c)"
    by simp_all
  from f have mem: "(i, c) \<in> set (contact d)"
    by (auto dest: find_one_SomeD)
  have m: "map (\<lambda>doc. if fst doc = i then set_code (issue_code env) (now env) doc else doc) (contact d) =
        map (\<lambda>doc. if fst doc = i
                    then (i, c\<lparr>c_verification_code := Some (issue_code env),
                                c_updated_at := Some (now env)\<rparr>)
                    else doc) (contact d)"
  proof (rule map_cong[OF refl])
    fix doc assume "doc \<in> set (contact d)"
    with mem dist have "fst doc = i \<Longrightarrow> doc = (i, c)"
      by (metis distinct_map inj_onD fst_conv)
    then show "(if fst doc = i then set_code (issue_code env) (now env) doc else doc) =
        (if fst doc = i
         then (i, c\<lparr>c_verification_code := Some (issue_code env), c_updated_at := Some (now env)\<rparr>)
         else doc)"
      by (cases doc) (auto simp: set_code_def)
  qed
  from register_contact_existing[OF f, of env] obtain row where
    "register_contact (Some d) env payload =
     (Inr (Registered (str_oid i) (normalize_phone (p_phone payload))
             ''Contact exists, verification re-sent''),
      Some (d\<lparr>contact := update_one (\<lambda>doc. fst doc = i)
                             (set_code (issue_code env) (now env)) (contact d),
              smsmessage := smsmessage d @ [(new_sms_id env, row)]\<rparr>))"
    by auto
  then show "\<exists>d'. register_contact (Some d) env payload =
          (Inr (Registered (str_oid i) (normalize_phone (p_phone payload))
                  ''Contact exists, verification re-sent''), Some d') \<and>
        contact d' =
          map (\<lambda>doc. if fst doc = i
                      then (i, c\<lparr>c_verification_code := Some (issue_code env),
                                  c_updated_at := Some (now env)\<rparr>)
                      else doc) (contact d) \<and>
        length (contact d') = length (contact d)"
    by (simp add: update_one_by_id[OF dist] m)
next
  fix rid ph msg d1 env2 and p2 :: RegistrationRequest
  assume "register_contact (Some d) env payload = (Inr (Registered rid ph msg), Some d1) \<and>
      normalize_phone (p_phone p2) = normalize_phone (p_phone payload)"
  then show "\<exists>d2. register_contact (Some d1) env2 p2 =
           (Inr (Registered rid ph ''Contact exists, verification re-sent''), Some d2) \<and>
         length (contact d2) = length (contact d1)"
    using register_contact_again by blast
qed

theorem register_contact_never_duplicates_witness:
  "(\<exists>d'. register_contact (Some store1) env_queued payload_ana =
       (Inr (Registered ''aaaaaaaaaaaaaaaaaaaaaaaa'' ''+15550001111''
               ''Contact exists, verification re-sent''), Some d') \<and>
     contact d' =
       [(''aaaaaaaaaaaaaaaaaaaaaaaa'',
         ana\<lparr>c_verification_code := Some ''123456'', c_updated_at := Some 7\<rparr>)]) \<and>
   (\<exists>d1 d2. register_contact (Some store0) env_queued payload_ana =
       (Inr (Registered ''c2'' ''+15550001111'' ''Registration received. Verification sent.''),
        Some d1) \<and>
     register_contact (Some d1) env_failing payload_ana =
       (Inr (Registered ''c2'' ''+15550001111'' ''Contact exists, verification re-sent''), Some d2) \<and>
     length (contact d2) = length (contact d1))"
proof -
  have n: "normalize_phone (p_phone payload_ana) = ''+15550001111''"
    by (simp add: payload_ana_def normalize_phone_ana)
  have f: "find_one (\<lambda>doc. c_phone (snd doc) = normalize_phone (p_phone payload_ana)) (contact store1) =
      Some (''aaaaaaaaaaaaaaaaaaaaaaaa'', ana)"
    by (simp add: n find_ana)
  have t: "now env_queued = 7"
    by (simp add: env_queued_def)
  have cs: "contact store1 = [(''aaaaaaaaaaaaaaaaaaaaaaaa'', ana)]"
    by (simp add: store1_def)
  have "\<exists>d'. register_contact (Some store1) env_queued payload_ana =
          (Inr (Registered (str_oid ''aaaaaaaaaaaaaaaaaaaaaaaa'') (normalize_phone (p_phone payload_ana))
                  ''Contact exists, verification re-sent''), Some d') \<and>
        contact d' =
          map (\<lambda>doc. if fst doc = ''aaaaaaaaaaaaaaaaaaaaaaaa''
                      then (''aaaaaaaaaaaaaaaaaaaaaaaa'',
                            ana\<lparr>c_verification_code := Some (issue_code env_queued),
                                c_updated_at := Some (now env_queued)\<rparr>)
                      else doc) (contact store1) \<and>
        length (contact d') = length (contact store1)"
    using register_contact_never_duplicates
      [of store1 payload_ana "''aaaaaaaaaaaaaaaaaaaaaaaa''" ana env_queued] distinct_store1 f
    by blast
  then have a: "\<exists>d'. register_contact (Some store1) env_queued payload_ana =
       (Inr (Registered ''aaaaaaaaaaaaaaaaaaaaaaaa'' ''+15550001111''
               ''Contact exists, verification re-sent''), Some d') \<and>
     contact d' =
       [(''aaaaaaaaaaaaaaaaaaaaaaaa'',
         ana\<lparr>c_verification_code := Some ''123456'', c_updated_at := Some 7\<rparr>)]"
    by (auto simp: n str_oid_def issue_code_queued t cs)
  obtain d1 where first: "register_contact (Some store0) env_queued payload_ana =
     (Inr (Registered ''c2'' ''+15550001111'' ''Registration received. Verification sent.''), Some d1)"
    using register_ana_first by blast
  have "\<exists>d2. register_contact (Some d1) env_failing payload_ana =
       (Inr (Registered ''c2'' ''+15550001111'' ''Contact exists, verification re-sent''), Some d2) \<and>
     length (contact d2) = length (contact d1)"
    using register_contact_never_duplicates
      [of store0 payload_ana "''x''" ana env_queued] first
    by blast
  with first a show ?thesis
    by blast
qed

section \<open>Send failures do not reach the caller\<close>

lemma issue_code_provider [simp]:
  "issue_code (env\<lparr>twilio_client := tc, TWILIO_FROM_NUMBER := fn, messages_create := mc\<rparr>) = issue_code env"
  by (simp add: issue_code_def)

lemma register_contact_response_provider:
  "fst (register_contact db (env\<lparr>twilio_client := tc, TWILIO_FROM_NUMBER := fn, messages_create := mc\<rparr>) payload) =
   fst (register_contact db env payload)"
proof (cases db)
  case None
  then show ?thesis
    by (simp add: register_contact_def)
next
  case (Some d)
  let ?env' = "env\<lparr>twilio_client := tc, TWILIO_FROM_NUMBER := fn, messages_create := mc\<rparr>"
  let ?flt = "\<lambda>doc. c_phone (snd doc) = normalize_phone (p_phone payload)"
  show ?thesis
  proof (cases "find_one ?flt (contact d)")
    case ex: (Some ex)
    from register_contact_existing[OF ex, of ?env'] register_contact_existing[OF ex, of env] Some
    show ?thesis
      by auto
  next
    case None
    show ?thesis
    proof (cases "lower (or_else (p_brand_queue payload) ''anomaly'') \<in> set [''anomaly'', ''arcane'']")
      case True
      from register_contact_new[OF None True, of ?env'] register_contact_new[OF None True, of env] Some
      show ?thesis
        by auto
    next
      case False
      from register_contact_invalid_brand[OF None False, of ?env']
        register_contact_invalid_brand[OF None False, of env] Some
      show ?thesis
        by simp
    qed
  qed
qed

lemma send_verification_response_provider:
  "fst (send_verification db (env\<lparr>twilio_client := tc, TWILIO_FROM_NUMBER := fn, messages_create := mc\<rparr>) raw) =
   fst (send_verification db env raw)"
proof (cases db)
  case None
  then show ?thesis
    by (simp add: send_verification_def)
next
  case (Some d)
  let ?env' = "env\<lparr>twilio_client := tc, TWILIO_FROM_NUMBER := fn, messages_create := mc\<rparr>"
  show ?thesis
  proof (cases "find_one (\<lambda>doc. c_phone (snd doc) = normalize_phone raw) (contact d)")
    case ex: (Some ex)
    from send_verification_found[OF ex, of ?env'] send_verification_found[OF ex, of env] Some
    show ?thesis
      by auto
  next
    case None
    from send_verification_not_found[OF None, of ?env'] send_verification_not_found[OF None, of env] Some
    show ?thesis
      by simp
  qed
qed

text \<open>
  C6. A failing send is absorbed. With a provider configured whose send raises, the
  gateway itself returns normally (nothing, after logging the failure), and a request
  that reaches the gateway gets its normal success response: \<open>register\<close> on an existing
  contact and on a new one, and \<open>send_verification\<close> on an existing contact. The
  response of either operation is the one it gives when the send succeeds, whatever the
  store.
\<close>

theorem sms_failure_absorbed:
  assumes "twilio_client env" "truthy (TWILIO_FROM_NUMBER env)" "messages_create env = Inl e"
  shows
    "(\<exists>d'. send_sms d env to body ''verify'' = Inr (None, d')) \<and>
     (\<forall>ex. find_one (\<lambda>doc. c_phone (snd doc) = normalize_phone (p_phone payload)) (contact d) = Some ex \<longrightarrow>
        fst (register_contact (Some d) env payload) =
          Inr (Registered (str_oid (fst ex)) (normalize_phone (p_phone payload))
                 ''Contact exists, verification re-sent'')) \<and>
     (find_one (\<lambda>doc. c_phone (snd doc) = normalize_phone (p_phone payload)) (contact d) = None \<and>
      lower (or_else (p_brand_queue payload) ''anomaly'') \<in> set [''anomaly'', ''arcane''] \<longrightarrow>
        fst (register_contact (Some d) env payload) =
          Inr (Registered (str_oid (new_contact_id env)) (normalize_phone (p_phone payload))
                 ''Registration received. Verification sent.'')) \<and>
     (\<forall>ex. find_one (\<lambda>doc. c_phone (snd doc) = normalize_phone raw) (contact d) = Some ex \<longrightarrow>
        fst (send_verification (Some d) env raw) = Inr (Message ''Verification sent'')) \<and>
     (\<forall>sid. fst (register_contact db (env\<lparr>messages_create := Inr sid\<rparr>) payload) =
            fst (register_contact db env payload) \<and>
            fst (send_verification db (env\<lparr>messages_create := Inr sid\<rparr>) raw) =
            fst (send_verification db env raw))"
proof (intro conjI allI impI)
  have "''verify'' \<in> set [''verify'', ''invite'', ''reminder'', ''gate_code'']"
    by simp
  from send_sms_logged[OF this, of d env to body] assms
  show "\<exists>d'. send_sms d env to body ''verify'' = Inr (None, d')"
    by simp
next
  fix ex
  assume "find_one (\<lambda>doc. c_phone (snd doc) = normalize_phone (p_phone payload)) (contact d) = Some ex"
  from register_contact_existing[OF this, of env]
  show "fst (register_contact (Some d) env payload) =
          Inr (Registered (str_oid (fst ex)) (normalize_phone (p_phone payload))
                 ''Contact exists, verification re-sent'')"
    by auto
next
  assume "find_one (\<lambda>doc. c_phone (snd doc) = normalize_phone (p_phone payload)) (contact d) = None \<and>
      lower (or_else (p_brand_queue payload) ''anomaly'') \<in> set [''anomaly'', ''arcane'']"
  then have n: "find_one (\<lambda>doc. c_phone (snd doc) = normalize_phone (p_phone payload)) (contact d) = None"
    and b: "lower (or_else (p_brand_queue payload) ''anomaly'') \<in> set [''anomaly'', ''arcane'']"
    by blast+
  from register_contact_new[OF n b, of env]
  show "fst (register_contact (Some d) env payload) =
          Inr (Registered (str_oid (new_contact_id env)) (normalize_phone (p_phone payload))
                 ''Registration received. Verification sent.'')"
    by auto
next
  fix ex
  assume "find_one (\<lambda>doc. c_phone (snd doc) = normalize_phone raw) (contact d) = Some ex"
  from send_verification_found[OF this, of env]
  show "fst (send_verification (Some d) env raw) = Inr (Message ''Verification sent'')"
    by auto
next
  fix sid
  have "env\<lparr>messages_create := Inr sid\<rparr> =
        env\<lparr>twilio_client := twilio_client env, TWILIO_FROM_NUMBER := TWILIO_FROM_NUMBER env,
            messages_create := Inr sid\<rparr>"
    by simp
  then show "fst (register_contact db (env\<lparr>messages_create := Inr sid\<rparr>) payload) =
            fst (register_contact db env payload)"
    using register_contact_response_provider by metis
next
  fix sid
  have "env\<lparr>messages_create := Inr sid\<rparr> =
        env\<lparr>twilio_client := twilio_client env, TWILIO_FROM_NUMBER := TWILIO_FROM_NUMBER env,
            messages_create := Inr sid\<rparr>"
    by simp
  then show "fst (send_verification db (env\<lparr>messages_create := Inr sid\<rparr>) raw) =
            fst (send_verification db env raw)"
    using send_verification_response_provider by metis
qed

theorem sms_failure_absorbed_witness:
  "twilio_client env_failing \<and> truthy (TWILIO_FROM_NUMBER env_failing) \<and>
   messages_create env_failing = Inl (ProviderError ''timeout'') \<and>
   fst (register_contact (Some store1) env_failing payload_ana) =
     Inr (Registered ''aaaaaaaaaaaaaaaaaaaaaaaa'' ''+15550001111''
            ''Contact exists, verification re-sent'') \<and>
   fst (register_contact (Some store0) env_failing payload_ana) =
     Inr (Registered ''c3'' ''+15550001111'' ''Registration received. Verification sent.'') \<and>
   fst (send_verification (Some store1) env_failing ''555-000-1111'') =
     Inr (Message ''Verification sent'')"
proof -
  have h: "twilio_client env_failing" "truthy (TWILIO_FROM_NUMBER env_failing)"
    "messages_create env_failing = Inl (ProviderError ''timeout'')"
    by (simp_all add: env_failing_def truthy_def)
  have n: "normalize_phone (p_phone payload_ana) = ''+15550001111''"
    by (simp add: payload_ana_def normalize_phone_ana)
  have f1: "find_one (\<lambda>doc. c_phone (snd doc) = normalize_phone (p_phone payload_ana)) (contact store1) =
      Some (''aaaaaaaaaaaaaaaaaaaaaaaa'', ana)"
    by (simp add: n find_ana)
  have f1': "find_one (\<lambda>doc. c_phone (snd doc) = normalize_phone ''555-000-1111'') (contact store1) =
      Some (''aaaaaaaaaaaaaaaaaaaaaaaa'', ana)"
    by (simp add: normalize_phone_ana find_ana)
  have f0: "find_one (\<lambda>doc. c_phone (snd doc) = normalize_phone (p_phone payload_ana)) (contact store0) = None"
    by (simp add: find_one_def store0_def)
  have b: "lower (or_else (p_brand_queue payload_ana) ''anomaly'') \<in> set [''anomaly'', ''arcane'']"
    by (simp add: payload_ana_def brand_default)
  have id3: "new_contact_id env_failing = ''c3''"
    by (simp add: env_failing_def)
  have a: "fst (register_contact (Some store1) env_failing payload_ana) =
     Inr (Registered ''aaaaaaaaaaaaaaaaaaaaaaaa'' ''+15550001111''
            ''Contact exists, verification re-sent'')"
    using sms_failure_absorbed [OF h, of store1 _ _ payload_ana] f1
    by (simp add: n str_oid_def)
  have c: "fst (send_verification (Some store1) env_failing ''555-000-1111'') =
     Inr (Message ''Verification sent'')"
    using sms_failure_absorbed [OF h, of store1 _ _ _ "''555-000-1111''"] f1'
    by simp
  have "fst (register_contact (Some store0) env_failing payload_ana) =
     Inr (Registered (str_oid (new_contact_id env_failing)) (normalize_phone (p_phone payload_ana))
            ''Registration received. Verification sent.'')"
    using sms_failure_absorbed [OF h, of store0 _ _ payload_ana] f0 b
    by blast
  then have "fst (register_contact (Some store0) env_failing payload_ana) =
     Inr (Registered ''c3'' ''+15550001111'' ''Registration received. Verification sent.'')"
    by (simp add: n id3 str_oid_def)
  with h a c show ?thesis
    by simp
qed

section \<open>No request takes a verification back\<close>

lemma stays_verified_refl: "stays_verified cs cs"
  by (simp add: stays_verified_def)

lemma stays_verified_trans:
  "stays_verified a b \<Longrightarrow> stays_verified b c \<Longrightarrow> stays_verified a c"
  unfolding stays_verified_def by (metis order_trans less_le_trans)

lemma update_one_nth:
  "k < length ds \<Longrightarrow> update_one sel upd ds ! k = ds ! k \<or> update_one sel upd ds ! k = upd (ds ! k)"
proof (induction ds arbitrary: k)
  case Nil
  then show ?case by simp
next
  case (Cons x xs)
  then show ?case
    by (cases k) auto
qed

lemma stays_verified_update_one:
  assumes "\<And>x. fst (upd x) = fst x"
    and "\<And>x. c_phone_verified (snd x) \<Longrightarrow> c_phone_verified (snd (upd x))"
  shows "stays_verified cs (update_one sel upd cs)"
  unfolding stays_verified_def
proof (intro conjI allI impI)
  show "length cs \<le> length (update_one sel upd cs)"
    by simp
next
  fix k assume "k < length cs"
  from update_one_nth[OF this, of sel upd] assms(1)[of "cs ! k"]
  show "fst (update_one sel upd cs ! k) = fst (cs ! k)"
    by (elim disjE) simp_all
next
  fix k assume k: "k < length cs" and v: "c_phone_verified (snd (cs ! k))"
  from update_one_nth[OF k, of sel upd] v assms(2)[OF v]
  show "c_phone_verified (snd (update_one sel upd cs ! k))"
    by (elim disjE) simp_all
qed

lemma stays_verified_append: "stays_verified cs (cs @ ys)"
  by (simp add: stays_verified_def nth_append)

lemma stays_verified_set_code:
  "stays_verified cs (update_one sel (set_code code t) cs)"
  by (rule stays_verified_update_one) (simp_all add: set_code_def)

lemma stays_verified_set_verified:
  "stays_verified cs (update_one sel (set_verified t) cs)"
  by (rule stays_verified_update_one) (simp_all add: set_verified_def)

lemma register_contact_stays_verified:
  "stays_verified (contacts_of db) (contacts_of (snd (register_contact db env payload)))"
proof (cases db)
  case None
  then show ?thesis
    by (simp add: register_contact_def contacts_of_def stays_verified_refl)
next
  case (Some d)
  show ?thesis
  proof (cases "find_one (\<lambda>doc. c_phone (snd doc) = normalize_phone (p_phone payload)) (contact d)")
    case ex: (Some ex)
    from register_contact_existing[OF ex, of env] Some show ?thesis
      by (auto simp: contacts_of_def stays_verified_set_code)
  next
    case None
    show ?thesis
    proof (cases "lower (or_else (p_brand_queue payload) ''anomaly'') \<in> set [''anomaly'', ''arcane'']")
      case True
      from register_contact_new[OF None True, of env] Some show ?thesis
        by (auto simp: contacts_of_def stays_verified_append)
    next
      case False
      from register_contact_invalid_brand[OF None False, of env] Some show ?thesis
        by (simp add: contacts_of_def stays_verified_refl)
    qed
  qed
qed

lemma send_verification_stays_verified:
  "stays_verified (contacts_of db) (contacts_of (snd (send_verification db env raw)))"
proof (cases db)
  case None
  then show ?thesis
    by (simp add: send_verification_def contacts_of_def stays_verified_refl)
next
  case (Some d)
  show ?thesis
  proof (cases "find_one (\<lambda>doc. c_phone (snd doc) = normalize_phone raw) (contact d)")
    case ex: (Some ex)
    from send_verification_found[OF ex, of env] Some show ?thesis
      by (auto simp: contacts_of_def stays_verified_set_code)
  next
    case None
    from send_verification_not_found[OF None, of env] Some show ?thesis
      by (simp add: contacts_of_def stays_verified_refl)
  qed
qed

lemma confirm_verification_stays_verified:
  "stays_verified (contacts_of db) (contacts_of (snd (confirm_verification db env raw code)))"
  by (auto simp: confirm_verification_def contacts_of_def stays_verified_refl
      stays_verified_set_verified split: option.splits)

lemma upsert_rsvp_contacts:
  "contacts_of (snd (upsert_rsvp db env payload)) = contacts_of db"
  by (auto simp: upsert_rsvp_def contacts_of_def Let_def split: option.splits sum.splits)

lemma sms_status_webhook_contacts:
  "contacts_of (snd (sms_status_webhook db env f)) = contacts_of db"
  by (auto simp: sms_status_webhook_def contacts_of_def split: option.splits)

lemma handle_stays_verified:
  "stays_verified (contacts_of db) (contacts_of (handle db rq))"
proof (cases rq)
  case (Pair env r)
  then show ?thesis
    by (cases r)
      (simp_all add: register_contact_stays_verified send_verification_stays_verified
        confirm_verification_stays_verified upsert_rsvp_contacts sms_status_webhook_contacts
        stays_verified_refl)
qed

text \<open>
  C9. No request takes a verification back. Whatever requests are served, in whatever
  environments and from whatever store (registrations, resends, confirmations, RSVP
  upserts, status callbacks), every contact of the store is afterwards still at its
  place under its identity, and if it was verified it is verified: the resend paths only
  write the code and the timestamp, a confirmation only sets \<open>phone_verified\<close> to true, a new
  registration only appends, and the other handlers do not touch the contacts.
\<close>

theorem verified_stays_verified:
  "stays_verified (contacts_of db) (contacts_of (serve db reqs))"
  unfolding serve_def
proof (induction reqs arbitrary: db)
  case Nil
  show ?case
    by (simp add: stays_verified_refl)
next
  case (Cons rq reqs)
  have "stays_verified (contacts_of db) (contacts_of (handle db rq))"
    by (rule handle_stays_verified)
  moreover have "stays_verified (contacts_of (handle db rq)) (contacts_of (foldl handle (handle db rq) reqs))"
    by (rule Cons.IH)
  ultimately show ?case
    by (auto intro: stays_verified_trans)
qed

theorem verified_stays_verified_witness:
  "c_phone_verified (snd (contacts_of (Some store1_verified) ! 0)) \<and>
   fst (contacts_of (serve (Some store1_verified) later_requests) ! 0) = ''aaaaaaaaaaaaaaaaaaaaaaaa'' \<and>
   c_phone_verified (snd (contacts_of (serve (Some store1_verified) later_requests) ! 0))"
proof -
  have v: "c_phone_verified (snd (contacts_of (Some store1_verified) ! 0))"
    and i: "fst (contacts_of (Some store1_verified) ! 0) = ''aaaaaaaaaaaaaaaaaaaaaaaa''"
    and l: "0 < length (contacts_of (Some store1_verified))"
    by (simp_all add: contacts_of_def store1_verified_def)
  from verified_stays_verified [of "Some store1_verified" later_requests] l
  have "fst (contacts_of (serve (Some store1_verified) later_requests) ! 0) =
          fst (contacts_of (Some store1_verified) ! 0) \<and>
        (c_phone_verified (snd (contacts_of (Some store1_verified) ! 0)) \<longrightarrow>
         c_phone_verified (snd (contacts_of (serve (Some store1_verified) later_requests) ! 0)))"
    unfolding stays_verified_def by blast
  with v i show ?thesis
    by simp
qed

end
